theory Spec2Isabelle
  imports Main "HOL-Library.Word"
begin

section \<open>Data model\<close>

text \<open>
  The convergence engine of \<^verbatim>\<open>pkg/compose/convergence.go\<close>. Go's \<^verbatim>\<open>int\<close> is
  the 64-bit two's complement integer of the platforms the program is built for: a
  \<open>64 word\<close>, read with \<open>sint\<close>, compared with \<open><s\<close>, and \<open>+\<close> wraps around.
  \<^verbatim>\<open>len(xs)\<close> is a non-negative \<^verbatim>\<open>int\<close>; it is written \<open>int (length xs)\<close>.
\<close>

type_synonym go_int = "64 word"

datatype error =
    NoContainerState
  | ErrSyntax string
  | ErrRange string
  | DoubledContainerName string string
  | NotCompleted string go_int
  | NoHealthcheck string
  | PanicIndexOutOfRange
  | PanicSliceBounds
  | RuntimeError string

text \<open>
  \<open>NoContainerState\<close>: \<^verbatim>\<open>GetContextContainerState\<close> found no snapshot in the context.
  \<open>ErrSyntax\<close>, \<open>ErrRange\<close>: the two errors of \<^verbatim>\<open>strconv.Atoi\<close>.
  \<open>DoubledContainerName name containerName\<close>: the error \<^verbatim>\<open>getScale\<close> formats from
  \<^verbatim>\<open>doubledContainerNameWarning\<close>. \<open>NotCompleted dep code\<close>:
  \<^verbatim>\<open>service %q didn't completed successfully: exit %d\<close>. \<open>NoHealthcheck service\<close>:
  \<^verbatim>\<open>container for service %q has no healthcheck configured\<close>. The two panics are Go's
  run-time panics of an index and of a slice expression out of range. \<open>RuntimeError\<close> is
  an error handed back by the container runtime or another collaborator.
\<close>

datatype ext_value = ExtString string | ExtOther

record DeployConfig =
  Replicas :: "64 word option"

record ServiceNetworkConfig =
  Aliases :: "string list"
  Ipv4Address :: string
  Ipv6Address :: string

record ServiceConfig =
  Name :: string
  ContainerName :: string
  Scale :: go_int
  Deploy :: "DeployConfig option"
  Extensions :: "string \<rightharpoonup> ext_value"
  DependsOn :: "(string \<times> string) list"
  Networks :: "string \<rightharpoonup> ServiceNetworkConfig"
  Links :: "string list"
  ExternalLinks :: "string list"
  Platform :: string

record NetworkConfig =
  NetworkName :: string

record Project =
  ProjectName :: string
  Services :: "ServiceConfig list"
  ProjectNetworks :: "string \<rightharpoonup> NetworkConfig"

text \<open>
  \<^verbatim>\<open>moby.Container\<close>, the summary of a container as the runtime lists it. \<open>Labels\<close> is a
  Go map: reading a key that is absent gives the empty string (\<open>label\<close> below).
  \<open>NetworkSettings\<close> is \<^verbatim>\<open>NetworkSettings.Networks\<close>, each endpoint reduced to its
  \<^verbatim>\<open>Aliases\<close>.
\<close>

record Container =
  ID :: string
  Names :: "string list"
  Labels :: "string \<rightharpoonup> string"
  State :: string
  NetworkSettings :: "string \<rightharpoonup> string list"

definition label :: "Container \<Rightarrow> string \<Rightarrow> string" where
  "label c k = (case Labels c k of None \<Rightarrow> [] | Some v \<Rightarrow> v)"

subsection \<open>Constants and helpers of the repository that are declared outside the two source files\<close>

definition ServiceLabel :: string where
  \<comment> \<open>Modelled from the spec: the label key of \<^verbatim>\<open>api.ServiceLabel\<close>, under which a
      container carries the name of its service.\<close>
  "ServiceLabel = ''com.docker.compose.service''"

definition OneoffLabel :: string where
  \<comment> \<open>Modelled from the spec: the label key of \<^verbatim>\<open>api.OneoffLabel\<close>, the one-off marker.\<close>
  "OneoffLabel = ''com.docker.compose.oneoff''"

definition ContainerNumberLabel :: string where
  \<comment> \<open>Modelled from the spec: the label key of \<^verbatim>\<open>api.ContainerNumberLabel\<close>, the
      container number.\<close>
  "ContainerNumberLabel = ''com.docker.compose.container-number''"

definition ConfigHashLabel :: string where
  \<comment> \<open>Modelled from the spec: the label key of \<^verbatim>\<open>api.ConfigHashLabel\<close>, the well-known
      key under which the config hash is persisted.\<close>
  "ConfigHashLabel = ''com.docker.compose.config-hash''"

definition isService :: "string \<Rightarrow> Container \<Rightarrow> bool" where
  \<comment> \<open>Modelled from the spec: the predicate \<^verbatim>\<open>isService(name)\<close> of the snapshot's filter,
      "by service name".\<close>
  "isService name c = (label c ServiceLabel = name)"

definition isNotOneOff :: "Container \<Rightarrow> bool" where
  \<comment> \<open>Modelled from the spec: the predicate \<^verbatim>\<open>isNotOneOff\<close> of the snapshot's filter,
      "exclude one-off": a container with no marker, or with the marker \<^verbatim>\<open>False\<close>.\<close>
  "isNotOneOff c = (case Labels c OneoffLabel of None \<Rightarrow> True | Some v \<Rightarrow> v = ''False'')"

subsection \<open>\<^verbatim>\<open>strconv.Atoi\<close> and \<^verbatim>\<open>%d\<close>\<close>

text \<open>
  Go's \<^verbatim>\<open>strconv.Atoi\<close>: an optional sign, then one or more decimal digits; a syntax
  error otherwise, a range error for a value outside the 64-bit \<^verbatim>\<open>int\<close>.
\<close>

definition digit_of :: "char \<Rightarrow> nat option" where
  "digit_of ch = (let n = (of_char ch :: nat) in if 48 \<le> n \<and> n \<le> 57 then Some (n - 48) else None)"

fun parse_digits :: "string \<Rightarrow> nat \<Rightarrow> nat option" where
  "parse_digits [] n = Some n"
| "parse_digits (ch # s) n =
     (case digit_of ch of None \<Rightarrow> None | Some d \<Rightarrow> parse_digits s (n * 10 + d))"

definition Atoi :: "string \<Rightarrow> error + go_int" where
  "Atoi s0 =
     (let neg = (s0 \<noteq> [] \<and> hd s0 = CHR ''-'');
          s = (if s0 \<noteq> [] \<and> (hd s0 = CHR ''-'' \<or> hd s0 = CHR ''+'') then tl s0 else s0)
      in if s = [] then Inl (ErrSyntax s0)
         else case parse_digits s 0 of
                None \<Rightarrow> Inl (ErrSyntax s0)
              | Some n \<Rightarrow>
                  let v = (if neg then - int n else int n)
                  in if - (2 ^ 63) \<le> v \<and> v < 2 ^ 63 then Inr (word_of_int v) else Inl (ErrRange s0))"

fun show_nat :: "nat \<Rightarrow> string" where
  "show_nat n =
     (if n < 10 then [char_of (48 + n)] else show_nat (n div 10) @ [char_of (48 + n mod 10)])"

declare show_nat.simps [simp del]

definition show_int :: "int \<Rightarrow> string" where
  \<comment> \<open>the verb \<^verbatim>\<open>%d\<close> of \<^verbatim>\<open>fmt.Sprintf\<close>\<close>
  "show_int i = (if i < 0 then CHR ''-'' # show_nat (nat (- i)) else show_nat (nat i))"

section \<open>Scale reconciliation\<close>

text \<open>
  The value of the local variable \<^verbatim>\<open>scale\<close> of \<^verbatim>\<open>getScale\<close> before the check of the
  container name (lines 206 to 213): 1, replaced by the deploy replicas when they are
  set (\<^verbatim>\<open>int(*config.Deploy.Replicas)\<close>, the same 64 bits read as signed), replaced by
  \<^verbatim>\<open>config.Scale\<close> when that is not 0.
\<close>

definition computedScale :: "ServiceConfig \<Rightarrow> go_int" where
  "computedScale config =
     (let scale = 1;
          scale = (case Deploy config of
                     None \<Rightarrow> scale
                   | Some d \<Rightarrow> (case Replicas d of None \<Rightarrow> scale | Some r \<Rightarrow> r));
          scale = (if Scale config \<noteq> 0 then Scale config else scale)
      in scale)"

text \<open>
  \<^verbatim>\<open>getScale\<close> returns the pair \<^verbatim>\<open>(scale, err)\<close>; with the error it returns the scale -1,
  which its caller \<^verbatim>\<open>ensureScale\<close> never reads. The model returns the error alone.
\<close>

definition getScale :: "ServiceConfig \<Rightarrow> error + go_int" where
  "getScale config =
     (let scale = computedScale config
      in if 1 <s scale \<and> ContainerName config \<noteq> []
         then Inl (DoubledContainerName (Name config) (ContainerName config))
         else Inr scale)"

definition getContainerName :: "string \<Rightarrow> ServiceConfig \<Rightarrow> go_int \<Rightarrow> string" where
  "getContainerName projectName service number =
     (let name = projectName @ ''_'' @ Name service @ ''_'' @ show_int (sint number)
      in if ContainerName service \<noteq> [] then ContainerName service else name)"

text \<open>The loop of \<^verbatim>\<open>nextContainerNumber\<close>, with \<^verbatim>\<open>max\<close> as its accumulator.\<close>

fun nextContainerNumber_loop :: "Container list \<Rightarrow> go_int \<Rightarrow> error + go_int" where
  "nextContainerNumber_loop [] mx = Inr mx"
| "nextContainerNumber_loop (c # cs) mx =
     (case Atoi (label c ContainerNumberLabel) of
        Inl err \<Rightarrow> Inl err
      | Inr n \<Rightarrow> nextContainerNumber_loop cs (if mx <s n then n else mx))"

definition nextContainerNumber :: "Container list \<Rightarrow> error + go_int" where
  "nextContainerNumber containers =
     (case nextContainerNumber_loop containers 0 of
        Inl err \<Rightarrow> Inl err
      | Inr mx \<Rightarrow> Inr (mx + 1))"

text \<open>
  The concurrent task group (\<^verbatim>\<open>errgroup.Group\<close>) is modelled by the list of the tasks
  handed to \<^verbatim>\<open>eg.Go\<close>, in the order of the calls. A task records the variables its
  closure captures; the project, the service, \<^verbatim>\<open>inherit\<close> and the timeout are those of
  the enclosing call.
\<close>

datatype task =
    CreateTask string go_int
  | StopRemoveTask Container
  | RecreateTask Container
  | StartTask Container

text \<open>Go's \<^verbatim>\<open>xs[i]\<close> and \<^verbatim>\<open>xs[:n]\<close>, which panic out of range.\<close>

definition index_at :: "'a list \<Rightarrow> int \<Rightarrow> error + 'a" where
  "index_at xs i = (if 0 \<le> i \<and> i < int (length xs) then Inr (xs ! nat i) else Inl PanicIndexOutOfRange)"

definition slice_to :: "'a list \<Rightarrow> int \<Rightarrow> error + 'a list" where
  "slice_to xs n = (if 0 \<le> n \<and> n \<le> int (length xs) then Inr (take (nat n) xs) else Inl PanicSliceBounds)"

text \<open>
  The first loop of \<^verbatim>\<open>ensureScale\<close> (lines 67 to 73): \<^verbatim>\<open>missing\<close> iterations, the
  \<open>i\<close>-th schedules the creation of the container numbered \<^verbatim>\<open>next + i\<close>.
\<close>

definition scheduleCreations :: "Project \<Rightarrow> ServiceConfig \<Rightarrow> go_int \<Rightarrow> int \<Rightarrow> task list" where
  "scheduleCreations project service next missing =
     map (\<lambda>i. let number = next + of_nat i;
                  name = getContainerName (ProjectName project) service number
              in CreateTask name number)
         [0 ..< nat missing]"

text \<open>
  The second loop (lines 77 to 86), over the indices \<^verbatim>\<open>scale, ..., len(actual) - 1\<close>: each
  iteration reads \<^verbatim>\<open>actual[i]\<close> and schedules its stop and removal.
\<close>

fun scheduleRemovals :: "Container list \<Rightarrow> int list \<Rightarrow> error + task list" where
  "scheduleRemovals actual [] = Inr []"
| "scheduleRemovals actual (i # is) =
     (case index_at actual i of
        Inl err \<Rightarrow> Inl err
      | Inr container \<Rightarrow>
          (case scheduleRemovals actual is of
             Inl err \<Rightarrow> Inl err
           | Inr ts \<Rightarrow> Inr (StopRemoveTask container # ts)))"

text \<open>
  \<^verbatim>\<open>ensureScale\<close>. Its first argument is the snapshot that \<^verbatim>\<open>GetContextContainerState\<close>
  finds in the context, if any. The result is the error, or the tasks scheduled on the
  group together with the retained containers. Every error return of the source precedes
  the first \<^verbatim>\<open>eg.Go\<close> of the call (the panic of \<^verbatim>\<open>actual[i]\<close> needs a negative scale,
  with which the first loop is not entered), so an error leaves no task behind.
\<close>

definition ensureScale ::
  "Container list option \<Rightarrow> Project \<Rightarrow> ServiceConfig \<Rightarrow> error + (task list \<times> Container list)" where
  "ensureScale cState project service =
     (case cState of
        None \<Rightarrow> Inl NoContainerState
      | Some observedState \<Rightarrow>
          let actual = filter isNotOneOff (filter (isService (Name service)) observedState)
          in (case getScale service of
               Inl err \<Rightarrow> Inl err
             | Inr scale \<Rightarrow>
                 (case (if int (length actual) < sint scale
                        then (case nextContainerNumber actual of
                                Inl err \<Rightarrow> Inl err
                              | Inr next \<Rightarrow>
                                  let missing = sint scale - int (length actual)
                                  in Inr (scheduleCreations project service next missing))
                        else Inr []) of
                    Inl err \<Rightarrow> Inl err
                  | Inr creations \<Rightarrow>
                      if sint scale < int (length actual)
                      then (case scheduleRemovals actual [sint scale .. int (length actual) - 1] of
                              Inl err \<Rightarrow> Inl err
                            | Inr removals \<Rightarrow>
                                (case slice_to actual (sint scale) of
                                   Inl err \<Rightarrow> Inl err
                                 | Inr retained \<Rightarrow> Inr (creations @ removals, retained)))
                      else Inr (creations, actual))))"

definition scheduledTasks :: "error + (task list \<times> Container list) \<Rightarrow> task list" where
  \<comment> \<open>the tasks on the group when \<^verbatim>\<open>ensureScale\<close> returns\<close>
  "scheduledTasks r = (case r of Inl _ \<Rightarrow> [] | Inr (tasks, _) \<Rightarrow> tasks)"

section \<open>Recreate decision\<close>

text \<open>
  The collaborators that the two source files call and that are declared elsewhere (in
  other files of the package, in \<^verbatim>\<open>compose-go\<close> and in \<^verbatim>\<open>containerd\<close>). Every function
  below takes them as a parameter, and every theorem holds for all of them.
  \<open>ServiceHash\<close> is the config hash; \<open>getCreateOptions\<close> builds what the runtime is asked
  to create (it may inspect the runtime); \<open>platformsParse\<close> gives the error of
  \<^verbatim>\<open>platforms.Parse\<close>, if any.
\<close>

record CreateOptions =
  ConfigLabels :: "string \<rightharpoonup> string"
  EndpointsConfig :: "string \<rightharpoonup> string list"

record ContainerState =
  Status :: string
  ExitCode :: go_int
  Health :: "string option"

record ContainerJSON =
  JSONID :: string
  JSONName :: string
  ConfigLabelsOf :: "string \<rightharpoonup> string"
  Endpoints :: "string \<rightharpoonup> string list"
  StateOf :: "ContainerState option"

datatype ApiCall =
    CallContainerStop string "nat option"
  | CallContainerRename string string
  | CallContainerCreate string CreateOptions
  | CallContainerInspect string
  | CallContainerRemove string
  | CallContainerStart string
  | CallContainerList
  | CallNetworkConnect string string "string list" string string "string list"
  | CallNetworkDisconnect string string

record Runtime =
  containers :: "ContainerJSON list"
  calls :: "ApiCall list"
  faults :: "ApiCall \<Rightarrow> bool"
  idSupply :: "string list"

record Collaborators =
  ServiceHash :: "ServiceConfig \<Rightarrow> error + string"
  getCanonicalContainerName :: "Container \<Rightarrow> string"
  getContainerNameWithoutProject :: "Container \<Rightarrow> string"
  GetDependencies :: "ServiceConfig \<Rightarrow> string list"
  NetworksByPriority :: "ServiceConfig \<Rightarrow> string list"
  getCreateOptions ::
    "Runtime \<Rightarrow> Project \<Rightarrow> ServiceConfig \<Rightarrow> go_int \<Rightarrow> Container option \<Rightarrow> bool \<Rightarrow> error + CreateOptions"
  platformsParse :: "string \<Rightarrow> error option"

definition extLifecycle :: string where
  "extLifecycle = ''x-lifecycle''"

definition forceRecreate :: string where
  "forceRecreate = ''force_recreate''"

definition RecreateNever :: string where
  \<comment> \<open>Modelled from the spec: \<^verbatim>\<open>api.RecreateNever\<close>, the recreate policy \<^verbatim>\<open>never\<close>.\<close>
  "RecreateNever = ''never''"

definition RecreateForce :: string where
  \<comment> \<open>Modelled from the spec: \<^verbatim>\<open>api.RecreateForce\<close>, the recreate policy \<^verbatim>\<open>force\<close>.\<close>
  "RecreateForce = ''force''"

definition ContainerRunning :: string where
  \<comment> \<open>Modelled from the spec: the lifecycle state \<^verbatim>\<open>running\<close>.\<close>
  "ContainerRunning = ''running''"

definition ContainerCreated :: string where
  \<comment> \<open>Modelled from the spec: the lifecycle state \<^verbatim>\<open>created\<close>.\<close>
  "ContainerCreated = ''created''"

definition ContainerRestarting :: string where
  \<comment> \<open>Modelled from the spec: the lifecycle state \<^verbatim>\<open>restarting\<close>.\<close>
  "ContainerRestarting = ''restarting''"

definition ContainerExited :: string where
  \<comment> \<open>Modelled from the spec: the lifecycle state \<^verbatim>\<open>exited\<close>.\<close>
  "ContainerExited = ''exited''"

text \<open>The events handed to the progress writer, named after the functions that build them.\<close>

datatype EventStatus = Working | Done

datatype Event =
    NewEvent string EventStatus string
  | CreatingEvent string
  | CreatedEvent string
  | RunningEvent string

definition getContainerProgressName :: "Collaborators \<Rightarrow> Container \<Rightarrow> string" where
  "getContainerProgressName co container = ''Container '' @ getCanonicalContainerName co container"

text \<open>
  The loop of \<^verbatim>\<open>ensureService\<close> over the retained containers (lines 107 to 132): the
  tasks it hands to the group and the events it emits.
\<close>

fun convergeContainers ::
  "Collaborators \<Rightarrow> ServiceConfig \<Rightarrow> string \<Rightarrow> string \<Rightarrow> Container list \<Rightarrow> task list \<times> Event list" where
  "convergeContainers co service recreate expected [] = ([], [])"
| "convergeContainers co service recreate expected (container # rest) =
     (let name = getContainerProgressName co container;
          diverged = (label container ConfigHashLabel \<noteq> expected);
          (tasks, evs) = convergeContainers co service recreate expected rest
      in if diverged \<or> recreate = RecreateForce
            \<or> Extensions service extLifecycle = Some (ExtString forceRecreate)
         then (RecreateTask container # tasks, evs)
         else if State container = ContainerRunning then (tasks, RunningEvent name # evs)
         else if State container = ContainerCreated then (tasks, evs)
         else if State container = ContainerRestarting then (tasks, evs)
         else if State container = ContainerExited then (tasks, CreatedEvent name # evs)
         else (StartTask container # tasks, evs))"

text \<open>
  \<^verbatim>\<open>ensureService\<close> up to its last line: the tasks handed to the group (those of
  \<^verbatim>\<open>ensureScale\<close> first), the events emitted, and how the function leaves:
  \<open>returned = Some r\<close> when it returns \<open>r\<close> (\<open>None\<close> is Go's \<^verbatim>\<open>nil\<close>) without waiting
  for the group, \<open>returned = None\<close> when it reaches \<^verbatim>\<open>return eg.Wait()\<close>.
\<close>

record Schedule =
  scheduled :: "task list"
  emitted :: "Event list"
  returned :: "error option option"

definition ensureService_schedule ::
  "Collaborators \<Rightarrow> Container list option \<Rightarrow> Project \<Rightarrow> ServiceConfig \<Rightarrow> string \<Rightarrow> Schedule" where
  "ensureService_schedule co cState project service recreate =
     (case ensureScale cState project service of
        Inl err \<Rightarrow> \<lparr>scheduled = [], emitted = [], returned = Some (Some err)\<rparr>
      | Inr (tasks, actual) \<Rightarrow>
          if recreate = RecreateNever
          then \<lparr>scheduled = tasks, emitted = [], returned = Some None\<rparr>
          else (case ServiceHash co service of
                  Inl err \<Rightarrow> \<lparr>scheduled = tasks, emitted = [], returned = Some (Some err)\<rparr>
                | Inr expected \<Rightarrow>
                    (case convergeContainers co service recreate expected actual of
                       (extra, evs) \<Rightarrow>
                         \<lparr>scheduled = tasks @ extra, emitted = evs, returned = None\<rparr>)))"

section \<open>The container runtime\<close>

text \<open>
  The runtime client (\<^verbatim>\<open>s.apiClient\<close>) is outside the repository. It is modelled as a
  state: the containers of the engine, as \<^verbatim>\<open>ContainerInspect\<close> shows them, the log of
  the calls made so far, the calls that the engine answers with an error (any set of
  them: a runtime call can fail at any time), and the identifiers it hands out to new
  containers. A call is logged, then fails if it is doomed to, or if the engine cannot
  carry it out (no such container, a name or an identifier already taken, a network
  already or not attached).
\<close>

definition logCall :: "ApiCall \<Rightarrow> Runtime \<Rightarrow> Runtime" where
  "logCall call rt = rt\<lparr>calls := calls rt @ [call]\<rparr>"

definition hasContainer :: "Runtime \<Rightarrow> string \<Rightarrow> bool" where
  "hasContainer rt cid = list_ex (\<lambda>c. JSONID c = cid) (containers rt)"

definition nameInUse :: "Runtime \<Rightarrow> string \<Rightarrow> bool" where
  "nameInUse rt name = list_ex (\<lambda>c. JSONName c = CHR ''/'' # name) (containers rt)"

definition updateContainer :: "string \<Rightarrow> (ContainerJSON \<Rightarrow> ContainerJSON) \<Rightarrow> Runtime \<Rightarrow> Runtime" where
  "updateContainer cid f rt =
     rt\<lparr>containers := map (\<lambda>c. if JSONID c = cid then f c else c) (containers rt)\<rparr>"

definition setStatus :: "string \<Rightarrow> ContainerJSON \<Rightarrow> ContainerJSON" where
  "setStatus status c =
     c\<lparr>StateOf := (case StateOf c of None \<Rightarrow> None | Some st \<Rightarrow> Some (st\<lparr>Status := status\<rparr>))\<rparr>"

definition ContainerStop :: "string \<Rightarrow> nat option \<Rightarrow> Runtime \<Rightarrow> error option \<times> Runtime" where
  \<comment> \<open>Modelled from the spec: \<^verbatim>\<open>StopContainer(id, timeout)\<close> of the runtime client.\<close>
  "ContainerStop cid timeout rt0 =
     (let call = CallContainerStop cid timeout; rt = logCall call rt0
      in if faults rt call then (Some (RuntimeError ''stop''), rt)
         else if \<not> hasContainer rt cid then (Some (RuntimeError ''no such container''), rt)
         else (None, updateContainer cid (setStatus ''exited'') rt))"

definition ContainerStart :: "string \<Rightarrow> Runtime \<Rightarrow> error option \<times> Runtime" where
  \<comment> \<open>Modelled from the spec: \<^verbatim>\<open>StartContainer(id)\<close> of the runtime client.\<close>
  "ContainerStart cid rt0 =
     (let call = CallContainerStart cid; rt = logCall call rt0
      in if faults rt call then (Some (RuntimeError ''start''), rt)
         else if \<not> hasContainer rt cid then (Some (RuntimeError ''no such container''), rt)
         else (None, updateContainer cid (setStatus ''running'') rt))"

definition ContainerRename :: "string \<Rightarrow> string \<Rightarrow> Runtime \<Rightarrow> error option \<times> Runtime" where
  \<comment> \<open>Modelled from the spec: \<^verbatim>\<open>RenameContainer(id, newName)\<close> of the runtime client.\<close>
  "ContainerRename cid newName rt0 =
     (let call = CallContainerRename cid newName; rt = logCall call rt0
      in if faults rt call then (Some (RuntimeError ''rename''), rt)
         else if \<not> hasContainer rt cid then (Some (RuntimeError ''no such container''), rt)
         else if nameInUse rt newName then (Some (RuntimeError ''name in use''), rt)
         else (None, updateContainer cid (\<lambda>c. c\<lparr>JSONName := CHR ''/'' # newName\<rparr>) rt))"

definition ContainerRemove :: "string \<Rightarrow> Runtime \<Rightarrow> error option \<times> Runtime" where
  \<comment> \<open>Modelled from the spec: \<^verbatim>\<open>RemoveContainer(id)\<close> of the runtime client.\<close>
  "ContainerRemove cid rt0 =
     (let call = CallContainerRemove cid; rt = logCall call rt0
      in if faults rt call then (Some (RuntimeError ''remove''), rt)
         else if \<not> hasContainer rt cid then (Some (RuntimeError ''no such container''), rt)
         else (None, rt\<lparr>containers := filter (\<lambda>c. JSONID c \<noteq> cid) (containers rt)\<rparr>))"

definition ContainerCreate :: "CreateOptions \<Rightarrow> string \<Rightarrow> Runtime \<Rightarrow> (error + string) \<times> Runtime" where
  \<comment> \<open>Modelled from the spec: \<^verbatim>\<open>CreateContainer(spec) -> id\<close> of the runtime client.\<close>
  "ContainerCreate opts name rt0 =
     (let call = CallContainerCreate name opts; rt = logCall call rt0
      in if faults rt call then (Inl (RuntimeError ''create''), rt)
         else if nameInUse rt name then (Inl (RuntimeError ''name in use''), rt)
         else (case idSupply rt of
                 [] \<Rightarrow> (Inl (RuntimeError ''no identifier''), rt)
               | cid # ids \<Rightarrow>
                   if hasContainer rt cid then (Inl (RuntimeError ''identifier in use''), rt)
                   else (Inr cid,
                         rt\<lparr>containers := containers rt @
                               [\<lparr>JSONID = cid, JSONName = CHR ''/'' # name,
                                 ConfigLabelsOf = ConfigLabels opts,
                                 Endpoints = EndpointsConfig opts,
                                 StateOf = Some \<lparr>Status = ''created'', ExitCode = 0, Health = None\<rparr>\<rparr>],
                             idSupply := ids\<rparr>)))"

definition ContainerInspect :: "string \<Rightarrow> Runtime \<Rightarrow> (error + ContainerJSON) \<times> Runtime" where
  \<comment> \<open>Modelled from the spec: \<^verbatim>\<open>InspectContainer(id)\<close> of the runtime client.\<close>
  "ContainerInspect cid rt0 =
     (let call = CallContainerInspect cid; rt = logCall call rt0
      in if faults rt call then (Inl (RuntimeError ''inspect''), rt)
         else (case find (\<lambda>c. JSONID c = cid) (containers rt) of
                 None \<Rightarrow> (Inl (RuntimeError ''no such container''), rt)
               | Some c \<Rightarrow> (Inr c, rt)))"

definition NetworkConnect ::
  "string \<Rightarrow> string \<Rightarrow> string list \<Rightarrow> string \<Rightarrow> string \<Rightarrow> string list \<Rightarrow> Runtime \<Rightarrow> error option \<times> Runtime" where
  \<comment> \<open>Modelled from the spec: \<^verbatim>\<open>ConnectNetwork(net, id, aliases, addrs, links)\<close> of the
      runtime client.\<close>
  "NetworkConnect net cid aliases ipv4 ipv6 links rt0 =
     (let call = CallNetworkConnect net cid aliases ipv4 ipv6 links; rt = logCall call rt0
      in if faults rt call then (Some (RuntimeError ''connect''), rt)
         else (case find (\<lambda>c. JSONID c = cid) (containers rt) of
                 None \<Rightarrow> (Some (RuntimeError ''no such container''), rt)
               | Some c \<Rightarrow>
                   if Endpoints c net \<noteq> None then (Some (RuntimeError ''already attached''), rt)
                   else (None, updateContainer cid (\<lambda>c. c\<lparr>Endpoints := (Endpoints c)(net \<mapsto> aliases)\<rparr>) rt)))"

definition NetworkDisconnect :: "string \<Rightarrow> string \<Rightarrow> Runtime \<Rightarrow> error option \<times> Runtime" where
  \<comment> \<open>Modelled from the spec: \<^verbatim>\<open>DisconnectNetwork(net, id, force)\<close> of the runtime client,
      called with \<^verbatim>\<open>force = false\<close>.\<close>
  "NetworkDisconnect net cid rt0 =
     (let call = CallNetworkDisconnect net cid; rt = logCall call rt0
      in if faults rt call then (Some (RuntimeError ''disconnect''), rt)
         else (case find (\<lambda>c. JSONID c = cid) (containers rt) of
                 None \<Rightarrow> (Some (RuntimeError ''no such container''), rt)
               | Some c \<Rightarrow>
                   if Endpoints c net = None then (Some (RuntimeError ''not attached''), rt)
                   else (None, updateContainer cid (\<lambda>c. c\<lparr>Endpoints := (Endpoints c)(net := None)\<rparr>) rt)))"

text \<open>
  What an operation works on: the engine, the snapshot of the context (a shared object
  that \<^verbatim>\<open>cState.Add\<close> extends), the project behind the pointer \<^verbatim>\<open>project\<close>, and the
  events received by the progress writer.
\<close>

record World =
  engine :: Runtime
  containerState :: "Container list option"
  projectRef :: Project
  events :: "Event list"

definition emit :: "Event \<Rightarrow> World \<Rightarrow> World" where
  "emit e w = w\<lparr>events := events w @ [e]\<rparr>"

section \<open>Creation, recreation and the network attachments\<close>

fun split_on :: "char \<Rightarrow> string \<Rightarrow> string list" where
  \<comment> \<open>\<^verbatim>\<open>strings.Split\<close> with a separator of one character\<close>
  "split_on sep [] = [[]]"
| "split_on sep (ch # s) =
     (if ch = sep then [] # split_on sep s
      else (case split_on sep s of [] \<Rightarrow> [[ch]] | p # ps \<Rightarrow> (ch # p) # ps))"

definition getLinks :: "Collaborators \<Rightarrow> World \<Rightarrow> ServiceConfig \<Rightarrow> error + string list" where
  "getLinks co w service =
     (case containerState w of
        None \<Rightarrow> Inl NoContainerState
      | Some observed \<Rightarrow>
          Inr (concat (map (\<lambda>serviceLink.
                 let s = split_on CHR '':'' serviceLink;
                     serviceName = (if length s = 2 then s ! 0 else serviceLink);
                     serviceAlias = (if length s = 2 then s ! 1 else []);
                     depServiceContainers = filter (isService serviceName) observed
                 in concat (map (\<lambda>container.
                      let name = getCanonicalContainerName co container
                      in (if serviceAlias \<noteq> [] then [name @ '':'' @ serviceAlias] else []) @
                         [name @ '':'' @ name,
                          name @ '':'' @ getContainerNameWithoutProject co container])
                    depServiceContainers))
               (Links service))
               @ ExternalLinks service))"

fun shortIDAliasExists :: "string \<Rightarrow> string list \<Rightarrow> error + bool" where
  "shortIDAliasExists containerID [] = Inr False"
| "shortIDAliasExists containerID (alias # aliases) =
     (case slice_to containerID 12 of
        Inl err \<Rightarrow> Inl err
      | Inr shortID \<Rightarrow>
          if alias = shortID then Inr True else shortIDAliasExists containerID aliases)"

definition connectContainerToNetwork ::
  "string \<Rightarrow> string \<Rightarrow> ServiceNetworkConfig option \<Rightarrow> string list \<Rightarrow> string list \<Rightarrow> Runtime
     \<Rightarrow> error option \<times> Runtime" where
  "connectContainerToNetwork cid netwrk cfg links aliases rt =
     (let ipv4ddress = (case cfg of None \<Rightarrow> [] | Some c \<Rightarrow> Ipv4Address c);
          ipv6Address = (case cfg of None \<Rightarrow> [] | Some c \<Rightarrow> Ipv6Address c)
      in NetworkConnect netwrk cid aliases ipv4ddress ipv6Address links rt)"

text \<open>The alias set computed at lines 338 to 344.\<close>

definition networkAliases ::
  "Project \<Rightarrow> ServiceConfig \<Rightarrow> go_int \<Rightarrow> bool \<Rightarrow> ServiceNetworkConfig option \<Rightarrow> string list" where
  "networkAliases proj service number useNetworkAliases cfg =
     (let aliases = [getContainerName (ProjectName proj) service number];
          aliases = (if useNetworkAliases
                     then (aliases @ [Name service]) @ (case cfg of None \<Rightarrow> [] | Some c \<Rightarrow> Aliases c)
                     else aliases)
      in aliases)"

text \<open>
  One iteration of the loop over \<^verbatim>\<open>service.NetworksByPriority()\<close> (lines 336 to 357).
  The result says whether the iteration returned an error; a \<^verbatim>\<open>continue\<close> and the end of
  the body both give \<open>None\<close>.
\<close>

definition reconcileNetwork ::
  "ServiceConfig \<Rightarrow> go_int \<Rightarrow> Container \<Rightarrow> string \<Rightarrow> string list \<Rightarrow> bool \<Rightarrow> string \<Rightarrow> World
     \<Rightarrow> error option \<times> World" where
  "reconcileNetwork service number createdContainer createdID links useNetworkAliases netName w =
     (let netwrk = (case ProjectNetworks (projectRef w) netName of
                      None \<Rightarrow> \<lparr>NetworkName = []\<rparr>
                    | Some n \<Rightarrow> n);
          cfg = Networks service netName;
          aliases = networkAliases (projectRef w) service number useNetworkAliases cfg;
          connect = (\<lambda>w. case connectContainerToNetwork createdID (NetworkName netwrk) cfg links
                                 aliases (engine w) of
                            (err, rt) \<Rightarrow> (err, w\<lparr>engine := rt\<rparr>))
      in case NetworkSettings createdContainer (NetworkName netwrk) of
           None \<Rightarrow> connect w
         | Some aliasesThere \<Rightarrow>
             (case shortIDAliasExists (ID createdContainer) aliasesThere of
                Inl err \<Rightarrow> (Some err, w)
              | Inr True \<Rightarrow> (None, w)
              | Inr False \<Rightarrow>
                  (case NetworkDisconnect (NetworkName netwrk) (ID createdContainer) (engine w) of
                     (Some err, rt) \<Rightarrow> (Some err, w\<lparr>engine := rt\<rparr>)
                   | (None, rt) \<Rightarrow> connect (w\<lparr>engine := rt\<rparr>))))"

fun reconcileNetworks ::
  "ServiceConfig \<Rightarrow> go_int \<Rightarrow> Container \<Rightarrow> string \<Rightarrow> string list \<Rightarrow> bool \<Rightarrow> string list \<Rightarrow> World
     \<Rightarrow> error option \<times> World" where
  "reconcileNetworks service number createdContainer createdID links useNetworkAliases [] w = (None, w)"
| "reconcileNetworks service number createdContainer createdID links useNetworkAliases (netName # rest) w =
     (case reconcileNetwork service number createdContainer createdID links useNetworkAliases netName w of
        (Some err, w') \<Rightarrow> (Some err, w')
      | (None, w') \<Rightarrow>
          reconcileNetworks service number createdContainer createdID links useNetworkAliases rest w')"

definition createMobyContainer ::
  "Collaborators \<Rightarrow> ServiceConfig \<Rightarrow> string \<Rightarrow> go_int \<Rightarrow> Container option \<Rightarrow> bool \<Rightarrow> bool \<Rightarrow> World
     \<Rightarrow> error option \<times> World" where
  "createMobyContainer co service name number inherit autoRemove useNetworkAliases w =
     (case containerState w of
        None \<Rightarrow> (Some NoContainerState, w)
      | Some observed \<Rightarrow>
          (case getCreateOptions co (engine w) (projectRef w) service number inherit autoRemove of
             Inl err \<Rightarrow> (Some err, w)
           | Inr opts \<Rightarrow>
               (case (if Platform service \<noteq> [] then platformsParse co (Platform service) else None) of
                  Some err \<Rightarrow> (Some err, w)
                | None \<Rightarrow>
                    (case ContainerCreate opts name (engine w) of
                       (Inl err, rt) \<Rightarrow> (Some err, w\<lparr>engine := rt\<rparr>)
                     | (Inr createdID, rt) \<Rightarrow>
                         (case ContainerInspect createdID rt of
                            (Inl err, rt) \<Rightarrow> (Some err, w\<lparr>engine := rt\<rparr>)
                          | (Inr inspectedContainer, rt) \<Rightarrow>
                              (let createdContainer =
                                     \<lparr>ID = JSONID inspectedContainer,
                                      Names = [JSONName inspectedContainer],
                                      Labels = ConfigLabelsOf inspectedContainer,
                                      State = [],
                                      NetworkSettings = Endpoints inspectedContainer\<rparr>;
                                   w = w\<lparr>engine := rt, containerState := Some (observed @ [createdContainer])\<rparr>
                               in case getLinks co w service of
                                    Inl err \<Rightarrow> (Some err, w)
                                  | Inr links \<Rightarrow>
                                      reconcileNetworks service number createdContainer createdID
                                        links useNetworkAliases (NetworksByPriority co service) w))))))"

definition createContainer ::
  "Collaborators \<Rightarrow> ServiceConfig \<Rightarrow> string \<Rightarrow> go_int \<Rightarrow> bool \<Rightarrow> bool \<Rightarrow> World \<Rightarrow> error option \<times> World" where
  "createContainer co service name number autoRemove useNetworkAliases w =
     (let eventName = ''Container '' @ name;
          w = emit (CreatingEvent eventName) w
      in case createMobyContainer co service name number None autoRemove useNetworkAliases w of
           (Some err, w) \<Rightarrow> (Some err, w)
         | (None, w) \<Rightarrow> (None, emit (CreatedEvent eventName) w))"

text \<open>
  \<^verbatim>\<open>setDependentLifecycle\<close>: every service of the project whose dependencies contain
  \<open>service\<close> gets the strategy under the key \<^verbatim>\<open>x-lifecycle\<close> of its extensions (a \<^verbatim>\<open>nil\<close>
  map reads like the empty one), and is written back to \<^verbatim>\<open>project.Services[i]\<close>.
\<close>

definition setDependentLifecycle :: "Collaborators \<Rightarrow> Project \<Rightarrow> string \<Rightarrow> string \<Rightarrow> Project" where
  "setDependentLifecycle co proj service strategy =
     proj\<lparr>Services :=
       map (\<lambda>s. if List.member (GetDependencies co s) service
                then s\<lparr>Extensions := (Extensions s)(extLifecycle \<mapsto> ExtString strategy)\<rparr>
                else s)
           (Services proj)\<rparr>"

definition recreateContainer ::
  "Collaborators \<Rightarrow> ServiceConfig \<Rightarrow> Container \<Rightarrow> bool \<Rightarrow> nat option \<Rightarrow> World \<Rightarrow> error option \<times> World" where
  "recreateContainer co service container inherit timeout w0 =
     (let w = emit (NewEvent (getContainerProgressName co container) Working ''Recreate'') w0
      in case ContainerStop (ID container) timeout (engine w) of
           (Some err, rt) \<Rightarrow> (Some err, w\<lparr>engine := rt\<rparr>)
         | (None, rt) \<Rightarrow>
             (let w = w\<lparr>engine := rt\<rparr>;
                  name = getCanonicalContainerName co container
              in case slice_to (ID container) 12 of
                   Inl err \<Rightarrow> (Some err, w)
                 | Inr shortID \<Rightarrow>
                     (let tmpName = shortID @ ''_'' @ name
                      in case ContainerRename (ID container) tmpName (engine w) of
                           (Some err, rt) \<Rightarrow> (Some err, w\<lparr>engine := rt\<rparr>)
                         | (None, rt) \<Rightarrow>
                             (let w = w\<lparr>engine := rt\<rparr>
                              in case Atoi (label container ContainerNumberLabel) of
                                   Inl err \<Rightarrow> (Some err, w)
                                 | Inr number \<Rightarrow>
                                     (let inherited = (if inherit then Some container else None)
                                      in case createMobyContainer co service name number inherited
                                                False True w of
                                           (Some err, w) \<Rightarrow> (Some err, w)
                                         | (None, w) \<Rightarrow>
                                             (case ContainerRemove (ID container) (engine w) of
                                                (Some err, rt) \<Rightarrow> (Some err, w\<lparr>engine := rt\<rparr>)
                                              | (None, rt) \<Rightarrow>
                                                  (let w = emit (NewEvent (getContainerProgressName co container)
                                                                   Done ''Recreated'')
                                                             (w\<lparr>engine := rt\<rparr>)
                                                   in (None,
                                                       w\<lparr>projectRef := setDependentLifecycle co (projectRef w)
                                                                       (Name service) forceRecreate\<rparr>))))))))"

definition startContainer :: "Collaborators \<Rightarrow> Container \<Rightarrow> World \<Rightarrow> error option \<times> World" where
  "startContainer co container w0 =
     (let w = emit (NewEvent (getContainerProgressName co container) Working ''Restart'') w0
      in case ContainerStart (ID container) (engine w) of
           (Some err, rt) \<Rightarrow> (Some err, w\<lparr>engine := rt\<rparr>)
         | (None, rt) \<Rightarrow>
             (None, emit (NewEvent (getContainerProgressName co container) Done ''Restarted'')
                      (w\<lparr>engine := rt\<rparr>)))"

text \<open>The task of lines 79 to 85: stop the container, then remove it.\<close>

definition stopAndRemove :: "Container \<Rightarrow> nat option \<Rightarrow> World \<Rightarrow> error option \<times> World" where
  "stopAndRemove container timeout w =
     (case ContainerStop (ID container) timeout (engine w) of
        (Some err, rt) \<Rightarrow> (Some err, w\<lparr>engine := rt\<rparr>)
      | (None, rt) \<Rightarrow>
          (case ContainerRemove (ID container) rt of
             (err, rt) \<Rightarrow> (err, w\<lparr>engine := rt\<rparr>)))"

section \<open>Running the task group\<close>

text \<open>
  The tasks of a group run concurrently. The model runs them one after the other, in the
  order in which they were handed to the group, each to its end: one of the schedules the
  program can take. The group was built with \<^verbatim>\<open>eg, _ := errgroup.WithContext(ctx)\<close>, the
  derived context dropped, so a failing task cancels nothing and every task runs.
  \<^verbatim>\<open>eg.Wait()\<close> gives the error of the first task that failed, \<^verbatim>\<open>nil\<close> when none did.
\<close>

fun runTask ::
  "Collaborators \<Rightarrow> ServiceConfig \<Rightarrow> bool \<Rightarrow> nat option \<Rightarrow> task \<Rightarrow> World \<Rightarrow> error option \<times> World" where
  "runTask co service inherit timeout (CreateTask name number) w =
     createContainer co service name number False True w"
| "runTask co service inherit timeout (StopRemoveTask container) w =
     stopAndRemove container timeout w"
| "runTask co service inherit timeout (RecreateTask container) w =
     recreateContainer co service container inherit timeout w"
| "runTask co service inherit timeout (StartTask container) w =
     startContainer co container w"

fun runTasks ::
  "Collaborators \<Rightarrow> ServiceConfig \<Rightarrow> bool \<Rightarrow> nat option \<Rightarrow> task list \<Rightarrow> World
     \<Rightarrow> error option list \<times> World" where
  "runTasks co service inherit timeout [] w = ([], w)"
| "runTasks co service inherit timeout (t # ts) w =
     (case runTask co service inherit timeout t w of
        (r, w') \<Rightarrow>
          (case runTasks co service inherit timeout ts w' of
             (rs, w'') \<Rightarrow> (r # rs, w'')))"

fun egWait :: "error option list \<Rightarrow> error option" where
  "egWait [] = None"
| "egWait (None # rs) = egWait rs"
| "egWait (Some err # rs) = Some err"

text \<open>
  \<^verbatim>\<open>ensureService\<close>: its result, and the world once every task of its group has run,
  whether the function waited for the group or not.
\<close>

definition ensureService ::
  "Collaborators \<Rightarrow> ServiceConfig \<Rightarrow> string \<Rightarrow> bool \<Rightarrow> nat option \<Rightarrow> World \<Rightarrow> error option \<times> World" where
  "ensureService co service recreate inherit timeout w =
     (let plan = ensureService_schedule co (containerState w) (projectRef w) service recreate;
          w1 = w\<lparr>events := events w @ emitted plan\<rparr>
      in case runTasks co service inherit timeout (scheduled plan) w1 of
           (outcomes, w2) \<Rightarrow>
             (case returned plan of
                Some r \<Rightarrow> (r, w2)
              | None \<Rightarrow> (egWait outcomes, w2)))"

section \<open>The dependency-ordered executor\<close>




section \<open>Waiting for dependencies\<close>

definition ProjectLabel :: string where
  \<comment> \<open>Modelled from the spec: the label key of \<^verbatim>\<open>api.ProjectLabel\<close>, under which a
      container carries the name of its project.\<close>
  "ProjectLabel = ''com.docker.compose.project''"

text \<open>A container of the engine as \<^verbatim>\<open>ContainerList\<close> summarises it.\<close>

definition summary :: "ContainerJSON \<Rightarrow> Container" where
  "summary c =
     \<lparr>ID = JSONID c, Names = [JSONName c], Labels = ConfigLabelsOf c,
      State = (case StateOf c of None \<Rightarrow> [] | Some st \<Rightarrow> Status st),
      NetworkSettings = Endpoints c\<rparr>"

definition getContainers :: "Runtime \<Rightarrow> string \<Rightarrow> bool \<Rightarrow> string \<Rightarrow> error + Container list" where
  \<comment> \<open>Modelled from the spec: \<^verbatim>\<open>s.getContainers(ctx, project, oneOffExclude, all, service)\<close>,
      the runtime's \<^verbatim>\<open>ListContainers(filter)\<close> for the containers of one service of the
      project, one-off containers excluded, the stopped ones included when \<open>all\<close>.\<close>
  "getContainers rt projectName all service =
     (if faults rt CallContainerList then Inl (RuntimeError ''list'')
      else Inr (filter (\<lambda>c. label c ProjectLabel = projectName \<and> isService service c
                            \<and> isNotOneOff c \<and> (all \<or> State c = ContainerRunning))
                 (map summary (containers rt))))"

definition Healthy :: string where
  "Healthy = ''healthy''"

fun isServiceHealthy_loop :: "Runtime \<Rightarrow> string \<Rightarrow> Container list \<Rightarrow> error + bool" where
  "isServiceHealthy_loop rt service [] = Inr True"
| "isServiceHealthy_loop rt service (c # cs) =
     (case fst (ContainerInspect (ID c) rt) of
        Inl err \<Rightarrow> Inl err
      | Inr container \<Rightarrow>
          (case StateOf container of
             None \<Rightarrow> Inl (NoHealthcheck service)
           | Some st \<Rightarrow>
               (case Health st of
                  None \<Rightarrow> Inl (NoHealthcheck service)
                | Some status \<Rightarrow>
                    if status \<noteq> Healthy then Inr False
                    else isServiceHealthy_loop rt service cs)))"

definition isServiceHealthy :: "Runtime \<Rightarrow> Project \<Rightarrow> string \<Rightarrow> error + bool" where
  "isServiceHealthy rt proj service =
     (case getContainers rt (ProjectName proj) False service of
        Inl err \<Rightarrow> Inl err
      | Inr cs \<Rightarrow> if length cs = 0 then Inr False else isServiceHealthy_loop rt service cs)"

fun isServiceCompleted_loop :: "Runtime \<Rightarrow> Container list \<Rightarrow> error + (bool \<times> go_int)" where
  "isServiceCompleted_loop rt [] = Inr (False, 0)"
| "isServiceCompleted_loop rt (c # cs) =
     (case fst (ContainerInspect (ID c) rt) of
        Inl err \<Rightarrow> Inl err
      | Inr container \<Rightarrow>
          (case StateOf container of
             None \<Rightarrow> isServiceCompleted_loop rt cs
           | Some st \<Rightarrow>
               if Status st = ''exited'' then Inr (True, ExitCode st)
               else isServiceCompleted_loop rt cs))"

definition isServiceCompleted :: "Runtime \<Rightarrow> Project \<Rightarrow> string \<Rightarrow> error + (bool \<times> go_int)" where
  "isServiceCompleted rt proj dep =
     (case getContainers rt (ProjectName proj) True dep of
        Inl err \<Rightarrow> Inl err
      | Inr cs \<Rightarrow> isServiceCompleted_loop rt cs)"

definition ServiceConditionHealthy :: string where
  "ServiceConditionHealthy = ''service_healthy''"

definition ServiceConditionCompletedSuccessfully :: string where
  "ServiceConditionCompletedSuccessfully = ''service_completed_successfully''"

definition ServiceConditionStarted :: string where
  "ServiceConditionStarted = ''service_started''"

text \<open>
  The waiter of one dependency (the task of lines 152 to 185). The loop runs its body at
  every tick of the ticker and may run forever; the engine changes between the ticks by
  causes outside the program. The first argument lists the engine as it is at each tick
  observed so far. The result is \<open>Some r\<close> when the waiter has returned \<open>r\<close> (\<open>None\<close> is
  \<^verbatim>\<open>nil\<close>) at one of these ticks, and \<open>None\<close> when after all of them it is still polling.
\<close>

fun waitDependency :: "Runtime list \<Rightarrow> Project \<Rightarrow> string \<Rightarrow> string \<Rightarrow> error option option" where
  "waitDependency [] proj dep condition = None"
| "waitDependency (rt # later) proj dep condition =
     (if condition = ServiceConditionHealthy
      then (case isServiceHealthy rt proj dep of
              Inl err \<Rightarrow> Some (Some err)
            | Inr healthy \<Rightarrow>
                if healthy then Some None else waitDependency later proj dep condition)
      else if condition = ServiceConditionCompletedSuccessfully
      then (case isServiceCompleted rt proj dep of
              Inl err \<Rightarrow> Some (Some err)
            | Inr (exited, code) \<Rightarrow>
                if exited
                then (if code \<noteq> 0 then Some (Some (NotCompleted dep code)) else Some None)
                else waitDependency later proj dep condition)
      else if condition = ServiceConditionStarted then Some None
      else Some None)"

text \<open>
  \<^verbatim>\<open>waitDependencies\<close>: one waiter per entry of \<^verbatim>\<open>depends_on\<close>; \<^verbatim>\<open>eg.Wait()\<close> returns
  once all of them have returned.
\<close>

definition waitDependencies :: "Runtime list \<Rightarrow> Project \<Rightarrow> ServiceConfig \<Rightarrow> error option option" where
  "waitDependencies ticks proj service =
     (let waits = map (\<lambda>(dep, condition). waitDependency ticks proj dep condition) (DependsOn service)
      in if list_ex (\<lambda>r. r = None) waits then None
         else Some (egWait (concat (map (\<lambda>r. case r of None \<Rightarrow> [] | Some x \<Rightarrow> [x]) waits))))"

section \<open>Vocabulary of the statements\<close>

text \<open>
  The container numbers that \<^verbatim>\<open>strconv.Atoi\<close> reads off the number labels of a list of
  containers, as mathematical integers, and whether a container's number label is a
  number at all.
\<close>

definition hasNumber :: "Container \<Rightarrow> bool" where
  "hasNumber c = (case Atoi (label c ContainerNumberLabel) of Inl _ \<Rightarrow> False | Inr _ \<Rightarrow> True)"

definition containerNumbers :: "Container list \<Rightarrow> int list" where
  "containerNumbers cs =
     concat (map (\<lambda>c. case Atoi (label c ContainerNumberLabel) of Inl _ \<Rightarrow> [] | Inr n \<Rightarrow> [sint n]) cs)"

text \<open>A container of a service as the engine labels it.\<close>

definition replica :: "string \<Rightarrow> string \<Rightarrow> string \<Rightarrow> Container" where
  "replica cid service number =
     \<lparr>ID = cid, Names = [], Labels = [ServiceLabel \<mapsto> service, OneoffLabel \<mapsto> ''False'',
        ContainerNumberLabel \<mapsto> number], State = ''running'', NetworkSettings = Map.empty\<rparr>"

definition unnumbered :: "string \<Rightarrow> string \<Rightarrow> Container" where
  "unnumbered cid service =
     \<lparr>ID = cid, Names = [], Labels = [ServiceLabel \<mapsto> service],
        State = ''running'', NetworkSettings = Map.empty\<rparr>"

definition plainService :: "string \<Rightarrow> ServiceConfig" where
  "plainService name =
     \<lparr>Name = name, ContainerName = [], Scale = 0, Deploy = None, Extensions = Map.empty,
        DependsOn = [], Networks = Map.empty, Links = [], ExternalLinks = [], Platform = []\<rparr>"

definition plainProject :: "string \<Rightarrow> ServiceConfig list \<Rightarrow> Project" where
  "plainProject name services =
     \<lparr>ProjectName = name, Services = services, ProjectNetworks = Map.empty\<rparr>"

text \<open>
  Collaborators for the examples: the hash of every service is \<open>h\<close>, the canonical name
  of a container is its first name without the leading slash, the dependencies of a
  service are the keys of \<^verbatim>\<open>depends_on\<close>, its networks by priority are \<open>nets\<close>, and a
  container is created with the labels of its project, its service, its number and the
  hash.
\<close>

definition exampleCollaborators :: "string \<Rightarrow> string list \<Rightarrow> Collaborators" where
  "exampleCollaborators h nets =
     \<lparr>ServiceHash = (\<lambda>service. Inr h),
      getCanonicalContainerName = (\<lambda>c. case Names c of [] \<Rightarrow> [] | n # ns \<Rightarrow> drop 1 n),
      getContainerNameWithoutProject = (\<lambda>c. case Names c of [] \<Rightarrow> [] | n # ns \<Rightarrow> drop 1 n),
      GetDependencies = (\<lambda>service. map fst (DependsOn service)),
      NetworksByPriority = (\<lambda>service. nets),
      getCreateOptions = (\<lambda>rt proj service number inherit autoRemove.
         Inr \<lparr>ConfigLabels = [ProjectLabel \<mapsto> ProjectName proj, ServiceLabel \<mapsto> Name service,
                 OneoffLabel \<mapsto> ''False'', ContainerNumberLabel \<mapsto> show_int (sint number),
                 ConfigHashLabel \<mapsto> h],
              EndpointsConfig = Map.empty\<rparr>),
      platformsParse = (\<lambda>platform. None)\<rparr>"


text \<open>
  The exit code of a listed container that the engine shows as exited, and the exit
  codes of the exited ones among a list of containers, in the order of the list.
\<close>

definition exitCodeOf :: "Runtime \<Rightarrow> Container \<Rightarrow> go_int option" where
  "exitCodeOf rt c =
     (case find (\<lambda>j. JSONID j = ID c) (containers rt) of
        None \<Rightarrow> None
      | Some j \<Rightarrow>
          (case StateOf j of
             None \<Rightarrow> None
           | Some st \<Rightarrow> if Status st = ''exited'' then Some (ExitCode st) else None))"

definition exitCodes :: "Runtime \<Rightarrow> Container list \<Rightarrow> go_int list" where
  "exitCodes rt cs = List.map_filter (exitCodeOf rt) cs"

text \<open>An engine container of a service that has exited with a code.\<close>

definition exitedJSON :: "string \<Rightarrow> string \<Rightarrow> string \<Rightarrow> go_int \<Rightarrow> ContainerJSON" where
  "exitedJSON cid proj service code =
     \<lparr>JSONID = cid, JSONName = CHR ''/'' # cid,
      ConfigLabelsOf = [ProjectLabel \<mapsto> proj, ServiceLabel \<mapsto> service, OneoffLabel \<mapsto> ''False''],
      Endpoints = Map.empty,
      StateOf = Some \<lparr>Status = ''exited'', ExitCode = code, Health = None\<rparr>\<rparr>"

definition plainRuntime :: "ContainerJSON list \<Rightarrow> string list \<Rightarrow> Runtime" where
  "plainRuntime cs ids = \<lparr>containers = cs, calls = [], faults = (\<lambda>call. False), idSupply = ids\<rparr>"





text \<open>
  The identities of the containers of the engine (identifier, name, labels); what a step
  leaves untouched (the project and these identities, while the log only grows); what
  the engine lists; a world with one container of the service \<^verbatim>\<open>db\<close>, on which the
  service \<^verbatim>\<open>web\<close> depends.
\<close>

definition identities :: "Runtime \<Rightarrow> (string \<times> string \<times> (string \<rightharpoonup> string)) list" where
  "identities rt = map (\<lambda>c. (JSONID c, JSONName c, ConfigLabelsOf c)) (containers rt)"

definition quiet :: "World \<Rightarrow> World \<Rightarrow> bool" where
  "quiet w w' \<longleftrightarrow>
     projectRef w' = projectRef w \<and> identities (engine w') = identities (engine w) \<and>
     (\<exists>more. calls (engine w') = calls (engine w) @ more)"

definition listing :: "Runtime \<Rightarrow> Container list" where
  "listing rt = map summary (containers rt)"

definition dbJSON :: ContainerJSON where
  "dbJSON =
     \<lparr>JSONID = ''0123456789abcdef'', JSONName = ''/app_db_1'',
      ConfigLabelsOf = [ServiceLabel \<mapsto> ''db'', OneoffLabel \<mapsto> ''False'',
                        ContainerNumberLabel \<mapsto> ''1'', ConfigHashLabel \<mapsto> ''old''],
      Endpoints = Map.empty,
      StateOf = Some \<lparr>Status = ''running'', ExitCode = 0, Health = None\<rparr>\<rparr>"

definition dbProject :: Project where
  "dbProject = plainProject ''app''
     [plainService ''db'', (plainService ''web'') \<lparr>DependsOn := [(''db'', ''service_started'')]\<rparr>]"

definition dbWorld :: World where
  "dbWorld =
     \<lparr>engine = plainRuntime [dbJSON] [''fedcba9876543210''],
      containerState = Some [summary dbJSON],
      projectRef = dbProject, events = []\<rparr>"



text \<open>An engine that answers every call with an error, and a world on it.\<close>

definition downRuntime :: Runtime where
  "downRuntime = \<lparr>containers = [], calls = [], faults = (\<lambda>call. True), idSupply = []\<rparr>"

definition downWorld :: World where
  "downWorld = \<lparr>engine = downRuntime, containerState = Some [],
                 projectRef = plainProject ''app'' [plainService ''web''], events = []\<rparr>"

text \<open>
  A listed container counts for a service of a project when it carries the project's and
  the service's names and is not a one-off container; this depends on its labels only.
\<close>

definition belongs :: "string \<Rightarrow> string \<Rightarrow> Container \<Rightarrow> bool" where
  "belongs projectName serviceName c \<longleftrightarrow>
     label c ProjectLabel = projectName \<and> isService serviceName c \<and> isNotOneOff c"

definition labelsBelong :: "string \<Rightarrow> string \<Rightarrow> (string \<rightharpoonup> string) \<Rightarrow> bool" where
  "labelsBelong projectName serviceName ls \<longleftrightarrow>
     belongs projectName serviceName
       \<lparr>ID = [], Names = [], Labels = ls, State = [], NetworkSettings = Map.empty\<rparr>"

definition freshState :: "string \<Rightarrow> Runtime \<Rightarrow> Container list option" where
  \<comment> \<open>Modelled from the spec: the Container State Snapshot, "populated once at operation start
      from the runtime" with the containers that belong to the project
      (\<^verbatim>\<open>getUpdatedContainersStateContext\<close>).\<close>
  "freshState projectName rt = Some (filter (\<lambda>c. label c ProjectLabel = projectName) (listing rt))"

text \<open>A world whose engine has no container yet.\<close>

definition freshWorld :: World where
  "freshWorld =
     \<lparr>engine = plainRuntime [] [''0123456789abcdef''],
      containerState = freshState ''app'' (plainRuntime [] [''0123456789abcdef'']),
      projectRef = plainProject ''app'' [plainService ''web''], events = []\<rparr>"

text \<open>
  The labels by which the filter of \<^verbatim>\<open>ensureScale\<close> finds a container of a service.
\<close>

definition labelsServe :: "string \<Rightarrow> (string \<rightharpoonup> string) \<Rightarrow> bool" where
  "labelsServe serviceName ls \<longleftrightarrow>
     isService serviceName
       \<lparr>ID = [], Names = [], Labels = ls, State = [], NetworkSettings = Map.empty\<rparr> \<and>
     isNotOneOff
       \<lparr>ID = [], Names = [], Labels = ls, State = [], NetworkSettings = Map.empty\<rparr>"

text \<open>A world with two containers of the service \<^verbatim>\<open>web\<close>, both in the snapshot.\<close>

definition webJSON :: "string \<Rightarrow> string \<Rightarrow> ContainerJSON" where
  "webJSON cid number =
     \<lparr>JSONID = cid, JSONName = ''/app_web_'' @ number,
      ConfigLabelsOf = [ProjectLabel \<mapsto> ''app'', ServiceLabel \<mapsto> ''web'', OneoffLabel \<mapsto> ''False'',
                        ContainerNumberLabel \<mapsto> number],
      Endpoints = Map.empty,
      StateOf = Some \<lparr>Status = ''running'', ExitCode = 0, Health = None\<rparr>\<rparr>"

definition crowdedWorld :: World where
  "crowdedWorld =
     \<lparr>engine = plainRuntime [webJSON ''1111111111111111'' ''1'', webJSON ''2222222222222222'' ''2''] [],
      containerState = Some [summary (webJSON ''1111111111111111'' ''1''),
                             summary (webJSON ''2222222222222222'' ''2'')],
      projectRef = plainProject ''app'' [plainService ''web''], events = []\<rparr>"




section \<open>Properties of scale reconciliation\<close>

lemma computedScale_unfold:
  "computedScale config =
     (if Scale config \<noteq> 0 then Scale config
      else case Deploy config of None \<Rightarrow> 1
           | Some d \<Rightarrow> (case Replicas d of None \<Rightarrow> 1 | Some r \<Rightarrow> r))"
  by (simp add: computedScale_def split: option.splits)

lemma Max_insert_max:
  assumes "finite S"
  shows "Max (insert (max a b) S) = Max (insert a (insert b S))"
proof (cases "S = {}")
  case True
  then show ?thesis by (simp add: max.commute)
next
  case False
  with assms show ?thesis by (simp add: max.assoc)
qed

lemma sint_signed_max:
  "sint (if mx <s n then n else mx) = max (sint mx) (sint n)"
  by (simp add: word_sless_alt max_def)

lemma nextContainerNumber_loop_Max:
  "list_all hasNumber cs \<Longrightarrow>
   \<exists>m. nextContainerNumber_loop cs mx = Inr m \<and> sint m = Max (set (sint mx # containerNumbers cs))"
proof (induction cs arbitrary: mx)
  case Nil
  then show ?case by (simp add: containerNumbers_def)
next
  case (Cons c cs)
  from Cons.prems obtain n where n: "Atoi (label c ContainerNumberLabel) = Inr n"
    by (auto simp: hasNumber_def split: sum.splits)
  from Cons.prems have rest: "list_all hasNumber cs" by simp
  from Cons.IH [OF rest, of "if mx <s n then n else mx"]
  obtain m where m: "nextContainerNumber_loop cs (if mx <s n then n else mx) = Inr m"
    and sm: "sint m = Max (set (sint (if mx <s n then n else mx) # containerNumbers cs))"
    by blast
  have split: "containerNumbers (c # cs) = sint n # containerNumbers cs"
    using n by (simp add: containerNumbers_def)
  have "sint m = Max (insert (max (sint mx) (sint n)) (set (containerNumbers cs)))"
    using sm by (simp only: sint_signed_max list.set)
  also have "\<dots> = Max (insert (sint mx) (insert (sint n) (set (containerNumbers cs))))"
    by (rule Max_insert_max) simp
  finally have "sint m = Max (set (sint mx # containerNumbers (c # cs)))"
    by (simp add: split)
  with m n show ?case by simp
qed

lemma nextContainerNumber_Max:
  assumes "list_all hasNumber cs"
  shows "nextContainerNumber cs = Inr (word_of_int (Max (set (0 # containerNumbers cs))) + 1)"
proof -
  from nextContainerNumber_loop_Max [OF assms, of 0]
  obtain m where m: "nextContainerNumber_loop cs 0 = Inr m"
    and sm: "sint m = Max (set (0 # containerNumbers cs))"
    by auto
  have "word_of_int (sint m) = m" by simp
  with sm have "m = word_of_int (Max (set (0 # containerNumbers cs)))" by simp
  with m show ?thesis by (simp add: nextContainerNumber_def)
qed

lemma nextContainerNumber_error:
  "\<not> list_all hasNumber cs \<Longrightarrow>
   \<exists>c err. find (\<lambda>c. \<not> hasNumber c) cs = Some c \<and>
           Atoi (label c ContainerNumberLabel) = Inl err \<and>
           nextContainerNumber_loop cs mx = Inl err"
proof (induction cs arbitrary: mx)
  case Nil
  then show ?case by simp
next
  case (Cons c cs)
  show ?case
  proof (cases "Atoi (label c ContainerNumberLabel)")
    case (Inl err)
    then show ?thesis by (simp add: hasNumber_def)
  next
    case (Inr n)
    then have h: "hasNumber c" by (simp add: hasNumber_def)
    with Cons.prems have "\<not> list_all hasNumber cs" by simp
    from Cons.IH [OF this, of "if mx <s n then n else mx"] Inr h
    show ?thesis by simp
  qed
qed

text \<open>
  C1 (as amended). Let the snapshot hold fewer containers of the service than the
  desired scale. When every one of them carries a number label that \<^verbatim>\<open>strconv.Atoi\<close>
  reads, \<^verbatim>\<open>ensureScale\<close> schedules exactly \<open>scale - observed\<close> creations and nothing
  else, and retains every observed container. The \<open>i\<close>-th creation (from 0) has the
  number \<open>next + i\<close>, where \<open>next\<close> is one more than the greatest of 0 and the
  containers' numbers. With the containers numbered 1 and 3 left of 1, 2, 3 and the scale
  3, the one creation is numbered 4 (the witness). When the number label of one of them
  is not a number, \<^verbatim>\<open>ensureScale\<close> returns the error of \<^verbatim>\<open>strconv.Atoi\<close> for the first
  such container and schedules nothing.
\<close>

theorem ensureScale_scale_up:
  assumes "actual = filter isNotOneOff (filter (isService (Name service)) observedState)"
    and "getScale service = Inr scale"
    and "int (length actual) < sint scale"
    and "next = word_of_int (Max (set (0 # containerNumbers actual))) + 1"
  shows "(list_all hasNumber actual \<longrightarrow>
            ensureScale (Some observedState) project service =
              Inr (map (\<lambda>i. CreateTask (getContainerName (ProjectName project) service (next + of_nat i))
                                        (next + of_nat i))
                       [0 ..< nat (sint scale - int (length actual))],
                   actual)) \<and>
         (\<not> list_all hasNumber actual \<longrightarrow>
            (\<exists>c err. find (\<lambda>c. \<not> hasNumber c) actual = Some c \<and>
                     Atoi (label c ContainerNumberLabel) = Inl err \<and>
                     ensureScale (Some observedState) project service = Inl err) \<and>
            scheduledTasks (ensureScale (Some observedState) project service) = [])"
proof (intro conjI impI)
  assume nums: "list_all hasNumber actual"
  have nxt: "nextContainerNumber actual = Inr next"
    using nums assms(4) by (simp add: nextContainerNumber_Max)
  have no_removal: "\<not> sint scale < int (length actual)"
    using assms(3) by simp
  show "ensureScale (Some observedState) project service =
          Inr (map (\<lambda>i. CreateTask (getContainerName (ProjectName project) service (next + of_nat i))
                                    (next + of_nat i))
                   [0 ..< nat (sint scale - int (length actual))],
               actual)"
    unfolding ensureScale_def
    using assms(1,2,3) nxt no_removal
    by (simp add: scheduleCreations_def Let_def)
next
  assume bad: "\<not> list_all hasNumber actual"
  from nextContainerNumber_error [OF bad, of 0]
  obtain c err where c: "find (\<lambda>c. \<not> hasNumber c) actual = Some c"
    and a: "Atoi (label c ContainerNumberLabel) = Inl err"
    and l: "nextContainerNumber_loop actual 0 = Inl err"
    by blast
  have e: "ensureScale (Some observedState) project service = Inl err"
    unfolding ensureScale_def
    using assms(1,2,3) l by (simp add: nextContainerNumber_def Let_def)
  from c a e show "\<exists>c err. find (\<lambda>c. \<not> hasNumber c) actual = Some c \<and>
      Atoi (label c ContainerNumberLabel) = Inl err \<and>
      ensureScale (Some observedState) project service = Inl err"
    by blast
  from e show "scheduledTasks (ensureScale (Some observedState) project service) = []"
    by (simp add: scheduledTasks_def)
qed

lemma show_int_4: "show_int 4 = ''4''"
  by code_simp

lemma replica_label:
  "label (replica cid service number) ContainerNumberLabel = number"
  "label (replica cid service number) ServiceLabel = service"
  "isNotOneOff (replica cid service number)"
  by (simp_all add: replica_def label_def isNotOneOff_def ServiceLabel_def OneoffLabel_def
      ContainerNumberLabel_def)

lemma unnumbered_label:
  "label (unnumbered cid service) ServiceLabel = service"
  "label (unnumbered cid service) ContainerNumberLabel = []"
  "isNotOneOff (unnumbered cid service)"
  by (simp_all add: unnumbered_def label_def isNotOneOff_def ServiceLabel_def OneoffLabel_def
      ContainerNumberLabel_def)

theorem ensureScale_scale_up_witness:
  "getScale ((plainService ''web'') \<lparr>Scale := 3\<rparr>) = Inr 3 \<and>
   list_all hasNumber [replica ''a1'' ''web'' ''1'', replica ''a3'' ''web'' ''3''] \<and>
   ensureScale (Some [replica ''a1'' ''web'' ''1'', replica ''a3'' ''web'' ''3''])
       (plainProject ''app'' []) ((plainService ''web'') \<lparr>Scale := 3\<rparr>) =
     Inr ([CreateTask ''app_web_4'' 4],
          [replica ''a1'' ''web'' ''1'', replica ''a3'' ''web'' ''3'']) \<and>
   \<not> list_all hasNumber [replica ''a1'' ''web'' ''1'', unnumbered ''a2'' ''web''] \<and>
   ensureScale (Some [replica ''a1'' ''web'' ''1'', unnumbered ''a2'' ''web''])
       (plainProject ''app'' []) ((plainService ''web'') \<lparr>Scale := 3\<rparr>) = Inl (ErrSyntax []) \<and>
   scheduledTasks (ensureScale (Some [replica ''a1'' ''web'' ''1'', unnumbered ''a2'' ''web''])
       (plainProject ''app'' []) ((plainService ''web'') \<lparr>Scale := 3\<rparr>)) = []"
proof -
  let ?cs = "[replica ''a1'' ''web'' ''1'', replica ''a3'' ''web'' ''3'']"
  let ?bs = "[replica ''a1'' ''web'' ''1'', unnumbered ''a2'' ''web'']"
  let ?svc = "(plainService ''web'') \<lparr>Scale := 3\<rparr>"
  have a1: "Atoi ''1'' = Inr 1" and a3: "Atoi ''3'' = Inr 3" and a0: "Atoi [] = Inl (ErrSyntax [])"
    by (simp_all add: Atoi_def digit_of_def)
  have act: "?cs = filter isNotOneOff (filter (isService (Name ?svc)) ?cs)"
    by (simp add: isService_def replica_label plainService_def)
  have sc: "getScale ?svc = Inr 3"
    by (simp add: getScale_def computedScale_def plainService_def word_sless_alt)
  have lt: "int (length ?cs) < sint (3 :: 64 word)" by simp
  have nums: "list_all hasNumber ?cs"
    by (simp add: hasNumber_def replica_label a1 a3)
  have nx: "(4 :: 64 word) = word_of_int (Max (set (0 # containerNumbers ?cs))) + 1"
    by (simp add: containerNumbers_def replica_label a1 a3)
  have name: "getContainerName ''app'' ?svc 4 = ''app_web_4''"
    by (simp add: getContainerName_def plainService_def show_int_4)
  note inst = ensureScale_scale_up [OF act sc lt nx, of "plainProject ''app'' []", THEN conjunct1,
      rule_format, OF nums]
  from inst name have good: "ensureScale (Some ?cs) (plainProject ''app'' []) ?svc =
      Inr ([CreateTask ''app_web_4'' 4], ?cs)"
    by (simp add: plainProject_def)
  have actb: "?bs = filter isNotOneOff (filter (isService (Name ?svc)) ?bs)"
    by (simp add: isService_def replica_label unnumbered_label plainService_def)
  have ltb: "int (length ?bs) < sint (3 :: 64 word)" by simp
  have h1: "hasNumber (replica ''a1'' ''web'' ''1'')"
    and h2: "\<not> hasNumber (unnumbered ''a2'' ''web'')"
    by (simp_all add: hasNumber_def replica_label unnumbered_label a1 a0)
  from h1 h2 have bad: "\<not> list_all hasNumber ?bs" by simp
  have fnd: "find (\<lambda>c. \<not> hasNumber c) ?bs = Some (unnumbered ''a2'' ''web'')"
    using h1 h2 by simp
  note instb = ensureScale_scale_up [OF actb sc ltb refl, of "plainProject ''app'' []",
      THEN conjunct2, rule_format, OF bad]
  from instb [THEN conjunct1] fnd
  have err: "ensureScale (Some ?bs) (plainProject ''app'' []) ?svc = Inl (ErrSyntax [])"
    by (auto simp: unnumbered_label a0)
  from sc nums good bad err instb [THEN conjunct2] show ?thesis by blast
qed

theorem ensureScale_unnumbered_counterexample:
  "getScale ((plainService ''web'') \<lparr>Scale := 2\<rparr>) = Inr 2 \<and>
   length (filter isNotOneOff (filter (isService ''web'') [unnumbered ''a1'' ''web''])) = 1 \<and>
   ensureScale (Some [unnumbered ''a1'' ''web'']) (plainProject ''app'' [])
       ((plainService ''web'') \<lparr>Scale := 2\<rparr>) = Inl (ErrSyntax [])"
proof -
  have lab: "label (unnumbered ''a1'' ''web'') ServiceLabel = ''web''"
    "label (unnumbered ''a1'' ''web'') ContainerNumberLabel = []"
    "isNotOneOff (unnumbered ''a1'' ''web'')"
    by (simp_all add: unnumbered_def label_def isNotOneOff_def ServiceLabel_def OneoffLabel_def
        ContainerNumberLabel_def)
  have sc: "getScale ((plainService ''web'') \<lparr>Scale := 2\<rparr>) = Inr 2"
    by (simp add: getScale_def computedScale_def plainService_def word_sless_alt)
  have at: "Atoi [] = Inl (ErrSyntax [])" by (simp add: Atoi_def)
  have nm: "Name ((plainService ''web'') \<lparr>Scale := 2\<rparr>) = ''web''"
    by (simp add: plainService_def)
  show ?thesis
    by (simp add: sc ensureScale_def nm isService_def lab nextContainerNumber_def at)
qed

text \<open>
  C3. A service whose computed replica count is greater than 1 and whose container name
  is set is rejected: \<^verbatim>\<open>ensureScale\<close> returns an error and no task is on the group, so no
  container is created. With a snapshot in the context the error is the one of
  \<^verbatim>\<open>getScale\<close>; without one, \<^verbatim>\<open>GetContextContainerState\<close> has failed before.
\<close>

theorem ensureScale_rejects_named_replicas:
  assumes "1 < sint (computedScale service)" and "ContainerName service \<noteq> []"
  shows "ensureScale cState project service =
           Inl (case cState of
                  None \<Rightarrow> NoContainerState
                | Some observedState \<Rightarrow> DoubledContainerName (Name service) (ContainerName service))
         \<and> getScale service = Inl (DoubledContainerName (Name service) (ContainerName service))
         \<and> scheduledTasks (ensureScale cState project service) = []"
proof -
  have g: "getScale service = Inl (DoubledContainerName (Name service) (ContainerName service))"
    using assms by (simp add: getScale_def word_sless_alt)
  have e: "ensureScale cState project service =
           Inl (case cState of
                  None \<Rightarrow> NoContainerState
                | Some observedState \<Rightarrow> DoubledContainerName (Name service) (ContainerName service))"
    by (cases cState) (simp_all add: ensureScale_def g)
  from e have "scheduledTasks (ensureScale cState project service) = []"
    by (simp add: scheduledTasks_def)
  with g e show ?thesis by simp
qed

theorem ensureScale_rejects_named_replicas_witness:
  "1 < sint (computedScale ((plainService ''db'') \<lparr>ContainerName := ''main-db'', Scale := 2\<rparr>)) \<and>
   ensureScale (Some []) (plainProject ''app'' [])
       ((plainService ''db'') \<lparr>ContainerName := ''main-db'', Scale := 2\<rparr>) =
     Inl (DoubledContainerName ''db'' ''main-db'') \<and>
   scheduledTasks (ensureScale (Some []) (plainProject ''app'' [])
       ((plainService ''db'') \<lparr>ContainerName := ''main-db'', Scale := 2\<rparr>)) = []"
proof -
  let ?svc = "(plainService ''db'') \<lparr>ContainerName := ''main-db'', Scale := 2\<rparr>"
  have h1: "1 < sint (computedScale ?svc)"
    by (simp add: computedScale_def plainService_def)
  have h2: "ContainerName ?svc \<noteq> []" by (simp add: plainService_def)
  from ensureScale_rejects_named_replicas [OF h1 h2, of "Some []" "plainProject ''app'' []"] h1
  show ?thesis by (simp add: plainService_def scheduledTasks_def)
qed

text \<open>
  C4 (as amended). \<^verbatim>\<open>getScale\<close> returns its error exactly when the computed scale is
  greater than 1 and a container name is set. In every other case it returns the
  computed scale as it is, 0 and the negative ones included. The computed scale is the
  scale field when that is not 0, else the deploy replicas when they are set, else 1.
\<close>

theorem getScale_error_iff:
  "((\<exists>err. getScale config = Inl err) \<longleftrightarrow>
      (1 < sint (computedScale config) \<and> ContainerName config \<noteq> [])) \<and>
   (1 < sint (computedScale config) \<and> ContainerName config \<noteq> [] \<longrightarrow>
      getScale config = Inl (DoubledContainerName (Name config) (ContainerName config))) \<and>
   (\<not> (1 < sint (computedScale config) \<and> ContainerName config \<noteq> []) \<longrightarrow>
      getScale config = Inr (computedScale config)) \<and>
   computedScale config =
     (if Scale config \<noteq> 0 then Scale config
      else case Deploy config of
             None \<Rightarrow> 1
           | Some d \<Rightarrow> (case Replicas d of None \<Rightarrow> 1 | Some r \<Rightarrow> r))"
proof -
  have "computedScale config =
     (if Scale config \<noteq> 0 then Scale config
      else case Deploy config of
             None \<Rightarrow> 1
           | Some d \<Rightarrow> (case Replicas d of None \<Rightarrow> 1 | Some r \<Rightarrow> r))"
    by (rule computedScale_unfold)
  moreover have "(\<exists>err. getScale config = Inl err) \<longleftrightarrow>
      (1 < sint (computedScale config) \<and> ContainerName config \<noteq> [])"
    by (auto simp: getScale_def word_sless_alt Let_def split: if_splits)
  moreover have "1 < sint (computedScale config) \<and> ContainerName config \<noteq> [] \<longrightarrow>
      getScale config = Inl (DoubledContainerName (Name config) (ContainerName config))"
    by (simp add: getScale_def word_sless_alt Let_def)
  moreover have "\<not> (1 < sint (computedScale config) \<and> ContainerName config \<noteq> []) \<longrightarrow>
      getScale config = Inr (computedScale config)"
    by (simp add: getScale_def word_sless_alt Let_def)
  ultimately show ?thesis by blast
qed

theorem getScale_error_iff_witness:
  "\<not> (1 < sint (computedScale ((plainService ''web'') \<lparr>Scale := - 1\<rparr>)) \<and>
        ContainerName ((plainService ''web'') \<lparr>Scale := - 1\<rparr>) \<noteq> []) \<and>
   getScale ((plainService ''web'') \<lparr>Scale := - 1\<rparr>) = Inr (- 1) \<and>
   getScale ((plainService ''web'') \<lparr>Scale := 3\<rparr>) = Inr 3 \<and>
   getScale ((plainService ''web'') \<lparr>Deploy := Some \<lparr>Replicas = Some 5\<rparr>\<rparr>) = Inr 5 \<and>
   getScale ((plainService ''web'') \<lparr>ContainerName := ''main'', Scale := 3\<rparr>) =
     Inl (DoubledContainerName ''web'' ''main'')"
proof -
  have c: "computedScale ((plainService ''web'') \<lparr>Scale := - 1\<rparr>) = - 1"
    "computedScale ((plainService ''web'') \<lparr>Scale := 3\<rparr>) = 3"
    "computedScale ((plainService ''web'') \<lparr>Deploy := Some \<lparr>Replicas = Some 5\<rparr>\<rparr>) = 5"
    "computedScale ((plainService ''web'') \<lparr>ContainerName := ''main'', Scale := 3\<rparr>) = 3"
    by (simp_all add: computedScale_def plainService_def)
  have n: "ContainerName ((plainService ''web'') \<lparr>Scale := - 1\<rparr>) = []"
    "ContainerName ((plainService ''web'') \<lparr>Scale := 3\<rparr>) = []"
    "ContainerName ((plainService ''web'') \<lparr>Deploy := Some \<lparr>Replicas = Some 5\<rparr>\<rparr>) = []"
    "ContainerName ((plainService ''web'') \<lparr>ContainerName := ''main'', Scale := 3\<rparr>) = ''main''"
    "Name ((plainService ''web'') \<lparr>ContainerName := ''main'', Scale := 3\<rparr>) = ''web''"
    by (simp_all add: plainService_def)
  from getScale_error_iff [of "(plainService ''web'') \<lparr>Scale := - 1\<rparr>"]
    getScale_error_iff [of "(plainService ''web'') \<lparr>Scale := 3\<rparr>"]
    getScale_error_iff [of "(plainService ''web'') \<lparr>Deploy := Some \<lparr>Replicas = Some 5\<rparr>\<rparr>"]
    getScale_error_iff [of "(plainService ''web'') \<lparr>ContainerName := ''main'', Scale := 3\<rparr>"]
  show ?thesis unfolding c n by simp
qed

theorem getScale_zero_replicas_counterexample:
  "computedScale ((plainService ''web'') \<lparr>Deploy := Some \<lparr>Replicas = Some 0\<rparr>\<rparr>) = 0 \<and>
   getScale ((plainService ''web'') \<lparr>Deploy := Some \<lparr>Replicas = Some 0\<rparr>\<rparr>) = Inr 0 \<and>
   \<not> 1 \<le> sint (0 :: 64 word)"
  by (simp add: getScale_def computedScale_def plainService_def)

section \<open>Properties of the recreate decision\<close>




lemma ensureScale_at_scale:
  assumes "getScale service = Inr scale"
    and "int (length (filter isNotOneOff (filter (isService (Name service)) observedState))) = sint scale"
  shows "ensureScale (Some observedState) project service =
           Inr ([], filter isNotOneOff (filter (isService (Name service)) observedState))"
  using assms by (simp add: ensureScale_def Let_def)

lemma getScale_plain: "getScale (plainService name) = Inr 1"
  by (simp add: getScale_def computedScale_def plainService_def)


section \<open>Properties of the dependency waiter\<close>

lemma inspect_found:
  "\<not> faults rt (CallContainerInspect cid) \<Longrightarrow>
   fst (ContainerInspect cid rt) =
     (case find (\<lambda>j. JSONID j = cid) (containers rt) of
        None \<Rightarrow> Inl (RuntimeError ''no such container'')
      | Some j \<Rightarrow> Inr j)"
  by (simp add: ContainerInspect_def logCall_def Let_def split: option.splits)

lemma find_listed:
  "c \<in> summary ` set js \<Longrightarrow> find (\<lambda>j. JSONID j = ID c) js \<noteq> None"
  by (auto simp: find_None_iff summary_def)

lemma isServiceCompleted_loop_exitCodes:
  assumes "\<forall>c \<in> set cs. \<not> faults rt (CallContainerInspect (ID c))"
    and "set cs \<subseteq> summary ` set (containers rt)"
  shows "isServiceCompleted_loop rt cs =
           Inr (case exitCodes rt cs of [] \<Rightarrow> (False, 0) | code # others \<Rightarrow> (True, code))"
  using assms
proof (induction cs)
  case Nil
  then show ?case by (simp add: exitCodes_def List.map_filter_simps)
next
  case (Cons c cs)
  then obtain j where j: "find (\<lambda>j. JSONID j = ID c) (containers rt) = Some j"
    using find_listed [of c "containers rt"] by auto
  from Cons.prems have nf: "\<not> faults rt (CallContainerInspect (ID c))" by simp
  have ins: "fst (ContainerInspect (ID c) rt) = Inr j"
    using inspect_found [OF nf] j by simp
  from Cons have IH: "isServiceCompleted_loop rt cs =
           Inr (case exitCodes rt cs of [] \<Rightarrow> (False, 0) | code # others \<Rightarrow> (True, code))"
    by simp
  show ?case
    using ins j IH
    by (simp add: exitCodes_def List.map_filter_simps exitCodeOf_def split: option.splits)
qed

lemma getContainers_listed:
  "getContainers rt p a s = Inr cs \<Longrightarrow> set cs \<subseteq> summary ` set (containers rt)"
  by (auto simp: getContainers_def split: if_splits)

lemma exitedJSON_summary:
  "label (summary (exitedJSON cid proj service code)) ProjectLabel = proj"
  "isService service (summary (exitedJSON cid proj service code))"
  "isNotOneOff (summary (exitedJSON cid proj service code))"
  "ID (summary (exitedJSON cid proj service code)) = cid"
  by (simp_all add: summary_def exitedJSON_def label_def isService_def isNotOneOff_def
      ProjectLabel_def ServiceLabel_def OneoffLabel_def)

lemma exitedJSON_sel:
  "JSONID (exitedJSON cid proj service code) = cid"
  "StateOf (exitedJSON cid proj service code) = Some \<lparr>Status = ''exited'', ExitCode = code, Health = None\<rparr>"
  by (simp_all add: exitedJSON_def)

text \<open>
  C8 (as amended). At a tick at which the listing of the dependency's containers and
  their inspections succeed, the waiter of a \<^verbatim>\<open>service_completed_successfully\<close>
  dependency goes by the first container, in the order of the listing, that has exited:
  with the exit code 0 it returns \<^verbatim>\<open>nil\<close>, with another code it returns the error that
  names the dependency and carries the code. When no listed container has exited it
  returns nothing at this tick and goes on with the next one.
\<close>

theorem waitDependency_completed:
  assumes "getContainers rt (ProjectName proj) True dep = Inr cs"
    and "\<forall>c \<in> set cs. \<not> faults rt (CallContainerInspect (ID c))"
  shows "waitDependency (rt # later) proj dep ServiceConditionCompletedSuccessfully =
           (case exitCodes rt cs of
              [] \<Rightarrow> waitDependency later proj dep ServiceConditionCompletedSuccessfully
            | code # others \<Rightarrow>
                if code = 0 then Some None else Some (Some (NotCompleted dep code)))"
proof -
  have ne: "ServiceConditionCompletedSuccessfully \<noteq> ServiceConditionHealthy"
    by (simp add: ServiceConditionCompletedSuccessfully_def ServiceConditionHealthy_def)
  have loop: "isServiceCompleted rt proj dep =
      Inr (case exitCodes rt cs of [] \<Rightarrow> (False, 0) | code # others \<Rightarrow> (True, code))"
    using assms isServiceCompleted_loop_exitCodes [OF assms(2) getContainers_listed [OF assms(1)]]
    by (simp add: isServiceCompleted_def)
  show ?thesis
    by (simp add: ne loop split: list.splits)
qed

theorem waitDependency_completed_witness:
  "getContainers (plainRuntime [exitedJSON ''job1'' ''app'' ''job'' 3] []) ''app'' True ''job'' =
     Inr [summary (exitedJSON ''job1'' ''app'' ''job'' 3)] \<and>
   \<not> faults (plainRuntime [exitedJSON ''job1'' ''app'' ''job'' 3] []) (CallContainerInspect ''job1'') \<and>
   exitCodes (plainRuntime [exitedJSON ''job1'' ''app'' ''job'' 3] [])
     [summary (exitedJSON ''job1'' ''app'' ''job'' 3)] = [3] \<and>
   waitDependency [plainRuntime [exitedJSON ''job1'' ''app'' ''job'' 3] []] (plainProject ''app'' []) ''job''
       ServiceConditionCompletedSuccessfully = Some (Some (NotCompleted ''job'' 3))"
proof -
  let ?j1 = "exitedJSON ''job1'' ''app'' ''job'' 3"
  let ?rt = "plainRuntime [?j1] []"
  have g: "getContainers ?rt (ProjectName (plainProject ''app'' [])) True ''job'' = Inr [summary ?j1]"
    by (simp add: getContainers_def plainRuntime_def exitedJSON_summary plainProject_def)
  have nf: "\<forall>x \<in> set [summary ?j1]. \<not> faults ?rt (CallContainerInspect (ID x))"
    by (simp add: plainRuntime_def)
  have ec: "exitCodes ?rt [summary ?j1] = [3]"
    by (simp add: exitCodes_def List.map_filter_simps exitCodeOf_def plainRuntime_def
        exitedJSON_summary exitedJSON_sel)
  have pn: "ProjectName (plainProject ''app'' []) = ''app''" by (simp add: plainProject_def)
  from waitDependency_completed [OF g nf, of "[]"] g nf ec pn
  show ?thesis by (simp del: waitDependency.simps add: exitedJSON_summary)
qed

theorem waitDependency_first_exited_counterexample:
  "exitCodeOf (plainRuntime [exitedJSON ''job1'' ''app'' ''job'' 1, exitedJSON ''job2'' ''app'' ''job'' 0] [])
      (summary (exitedJSON ''job2'' ''app'' ''job'' 0)) = Some 0 \<and>
   getContainers (plainRuntime [exitedJSON ''job1'' ''app'' ''job'' 1, exitedJSON ''job2'' ''app'' ''job'' 0] [])
      ''app'' True ''job'' =
     Inr [summary (exitedJSON ''job1'' ''app'' ''job'' 1), summary (exitedJSON ''job2'' ''app'' ''job'' 0)] \<and>
   waitDependency [plainRuntime [exitedJSON ''job1'' ''app'' ''job'' 1, exitedJSON ''job2'' ''app'' ''job'' 0] []]
       (plainProject ''app'' []) ''job''
       ServiceConditionCompletedSuccessfully = Some (Some (NotCompleted ''job'' 1))"
proof -
  let ?j1 = "exitedJSON ''job1'' ''app'' ''job'' 1"
  let ?j2 = "exitedJSON ''job2'' ''app'' ''job'' 0"
  let ?rt = "plainRuntime [?j1, ?j2] []"
  have g: "getContainers ?rt ''app'' True ''job'' = Inr [summary ?j1, summary ?j2]"
    by (simp add: getContainers_def plainRuntime_def exitedJSON_summary)
  have e2: "exitCodeOf ?rt (summary ?j2) = Some 0"
    by (simp add: exitCodeOf_def plainRuntime_def exitedJSON_summary exitedJSON_sel)
  have ne: "ServiceConditionCompletedSuccessfully \<noteq> ServiceConditionHealthy"
    by (simp add: ServiceConditionCompletedSuccessfully_def ServiceConditionHealthy_def)
  have i1: "fst (ContainerInspect ''job1'' ?rt) = Inr ?j1"
    by (simp add: ContainerInspect_def plainRuntime_def logCall_def Let_def exitedJSON_sel)
  have w: "waitDependency [?rt] (plainProject ''app'' []) ''job''
       ServiceConditionCompletedSuccessfully = Some (Some (NotCompleted ''job'' 1))"
    by (simp add: ne isServiceCompleted_def plainProject_def g exitedJSON_summary i1 exitedJSON_sel)
  from e2 g w show ?thesis by simp
qed

section \<open>Properties of the network attachments\<close>


lemma NetworkDisconnect_calls:
  "calls (snd (NetworkDisconnect net cid rt)) = calls rt @ [CallNetworkDisconnect net cid]"
  by (simp add: NetworkDisconnect_def logCall_def updateContainer_def Let_def split: option.splits)

lemma NetworkConnect_calls:
  "calls (snd (NetworkConnect net cid aliases ipv4 ipv6 links rt)) =
     calls rt @ [CallNetworkConnect net cid aliases ipv4 ipv6 links]"
  by (simp add: NetworkConnect_def logCall_def updateContainer_def Let_def split: option.splits)






section \<open>Properties of recreation\<close>

lemma hasContainer_identities:
  "hasContainer rt cid \<longleftrightarrow> cid \<in> fst ` set (identities rt)"
  by (auto simp: hasContainer_def identities_def list_ex_iff image_iff)

lemma identities_updateContainer:
  assumes "\<And>c. JSONID (f c) = JSONID c" "\<And>c. JSONName (f c) = JSONName c"
    "\<And>c. ConfigLabelsOf (f c) = ConfigLabelsOf c"
  shows "identities (updateContainer cid f rt) = identities rt"
  using assms by (simp add: identities_def updateContainer_def)

lemma ContainerStop_calls:
  "calls (snd (ContainerStop cid timeout rt)) = calls rt @ [CallContainerStop cid timeout]"
  by (simp add: ContainerStop_def logCall_def updateContainer_def Let_def)

lemma ContainerStop_identities:
  "identities (snd (ContainerStop cid timeout rt)) = identities rt"
  by (simp add: ContainerStop_def Let_def identities_updateContainer setStatus_def)
     (simp add: identities_def logCall_def)

lemma ContainerRename_calls:
  "calls (snd (ContainerRename cid newName rt)) = calls rt @ [CallContainerRename cid newName]"
  by (simp add: ContainerRename_def logCall_def updateContainer_def Let_def)

lemma ContainerRename_ids:
  "map fst (identities (snd (ContainerRename cid newName rt))) = map fst (identities rt)"
  by (simp add: ContainerRename_def logCall_def updateContainer_def Let_def identities_def comp_def)

lemma ContainerRemove_calls:
  "calls (snd (ContainerRemove cid rt)) = calls rt @ [CallContainerRemove cid]"
  by (simp add: ContainerRemove_def logCall_def Let_def)

lemma ContainerRemove_identities:
  "fst (ContainerRemove cid rt) = None \<Longrightarrow>
   identities (snd (ContainerRemove cid rt)) = filter (\<lambda>i. fst i \<noteq> cid) (identities rt)"
  by (simp add: ContainerRemove_def logCall_def Let_def identities_def filter_map comp_def
      split: if_splits)

lemma ContainerCreate_calls:
  "calls (snd (ContainerCreate opts name rt)) = calls rt @ [CallContainerCreate name opts]"
  by (simp add: ContainerCreate_def logCall_def Let_def split: list.splits)

lemma ContainerCreate_identities:
  "fst (ContainerCreate opts name rt) = Inr cid \<Longrightarrow>
   identities (snd (ContainerCreate opts name rt)) =
     identities rt @ [(cid, CHR ''/'' # name, ConfigLabels opts)] \<and> \<not> hasContainer rt cid"
  by (auto simp: ContainerCreate_def logCall_def Let_def identities_def hasContainer_def
      split: if_splits list.splits)

lemma ContainerInspect_calls:
  "calls (snd (ContainerInspect cid rt)) = calls rt @ [CallContainerInspect cid]"
  by (simp add: ContainerInspect_def logCall_def Let_def split: option.splits)

lemma ContainerInspect_identities:
  "identities (snd (ContainerInspect cid rt)) = identities rt"
  by (simp add: ContainerInspect_def logCall_def Let_def identities_def split: option.splits)

lemma NetworkDisconnect_identities:
  "identities (snd (NetworkDisconnect net cid rt)) = identities rt"
  by (simp add: NetworkDisconnect_def Let_def identities_updateContainer split: option.splits)
     (simp add: identities_def logCall_def)

lemma NetworkConnect_identities:
  "identities (snd (NetworkConnect net cid aliases ipv4 ipv6 links rt)) = identities rt"
  by (simp add: NetworkConnect_def Let_def identities_updateContainer split: option.splits)
     (simp add: identities_def logCall_def)

lemma quiet_refl: "quiet w w"
  by (simp add: quiet_def)

lemma quiet_trans: "quiet w w' \<Longrightarrow> quiet w' w'' \<Longrightarrow> quiet w w''"
  by (auto simp: quiet_def)

lemmas api_calls = ContainerStop_calls ContainerRename_calls ContainerRemove_calls
  ContainerCreate_calls ContainerInspect_calls NetworkDisconnect_calls NetworkConnect_calls

lemma reconcileNetwork_quiet:
  "quiet w (snd (reconcileNetwork service number cc cid links una netName w))"
  unfolding reconcileNetwork_def Let_def connectContainerToNetwork_def quiet_def
  by (simp add: split_beta NetworkDisconnect_identities NetworkConnect_identities api_calls
      split: option.splits sum.splits bool.splits)

lemma reconcileNetworks_quiet:
  "quiet w (snd (reconcileNetworks service number cc cid links una nets w))"
proof (induction nets arbitrary: w)
  case Nil
  show ?case by (simp add: quiet_refl)
next
  case (Cons netName rest)
  obtain e w1 where r: "reconcileNetwork service number cc cid links una netName w = (e, w1)"
    by (cases "reconcileNetwork service number cc cid links una netName w")
  have q1: "quiet w w1" using reconcileNetwork_quiet [of w service number cc cid links una netName] r by simp
  show ?case
  proof (cases e)
    case None
    then show ?thesis using r q1 Cons.IH [of w1] by (simp add: quiet_trans)
  next
    case (Some err)
    then show ?thesis using r q1 by simp
  qed
qed

lemma createMobyContainer_success:
  assumes "fst (createMobyContainer co service name number inherit autoRemove una w) = None"
  shows "\<exists>opts cid more.
           getCreateOptions co (engine w) (projectRef w) service number inherit autoRemove = Inr opts \<and>
           \<not> hasContainer (engine w) cid \<and>
           projectRef (snd (createMobyContainer co service name number inherit autoRemove una w)) = projectRef w \<and>
           identities (engine (snd (createMobyContainer co service name number inherit autoRemove una w))) =
             identities (engine w) @ [(cid, CHR ''/'' # name, ConfigLabels opts)] \<and>
           calls (engine (snd (createMobyContainer co service name number inherit autoRemove una w))) =
             calls (engine w) @ CallContainerCreate name opts # more"
proof -
  from assms obtain observed where st: "containerState w = Some observed"
    by (auto simp: createMobyContainer_def split: option.splits)
  from assms st obtain opts where
    o: "getCreateOptions co (engine w) (projectRef w) service number inherit autoRemove = Inr opts"
    by (auto simp: createMobyContainer_def split: sum.splits)
  from assms st o have pf: "(if Platform service \<noteq> [] then platformsParse co (Platform service) else None) = None"
    by (auto simp: createMobyContainer_def split: option.splits)
  obtain r1 rt1 where c: "ContainerCreate opts name (engine w) = (r1, rt1)"
    by (cases "ContainerCreate opts name (engine w)")
  from assms st o pf c obtain cid where r1: "r1 = Inr cid"
    by (cases r1) (auto simp: createMobyContainer_def)
  obtain r2 rt2 where i: "ContainerInspect cid rt1 = (r2, rt2)"
    by (cases "ContainerInspect cid rt1")
  from assms st o pf c r1 i obtain j where r2: "r2 = Inr j"
    by (cases r2) (auto simp: createMobyContainer_def)
  let ?cc = "\<lparr>ID = JSONID j, Names = [JSONName j], Labels = ConfigLabelsOf j, State = [],
              NetworkSettings = Endpoints j\<rparr>"
  let ?w1 = "w\<lparr>engine := rt2, containerState := Some (observed @ [?cc])\<rparr>"
  from assms st o pf c r1 i r2 obtain links where l: "getLinks co ?w1 service = Inr links"
    by (cases "getLinks co ?w1 service") (auto simp: createMobyContainer_def Let_def)
  have res: "createMobyContainer co service name number inherit autoRemove una w =
      reconcileNetworks service number ?cc cid links una (NetworksByPriority co service) ?w1"
    using st o pf c r1 i r2 l by (simp add: createMobyContainer_def Let_def)
  have q: "quiet ?w1 (snd (reconcileNetworks service number ?cc cid links una (NetworksByPriority co service) ?w1))"
    by (rule reconcileNetworks_quiet)
  have id1: "identities rt1 = identities (engine w) @ [(cid, CHR ''/'' # name, ConfigLabels opts)]"
    and fresh: "\<not> hasContainer (engine w) cid"
    using ContainerCreate_identities [of opts name "engine w" cid] c r1 by simp_all
  have id2: "identities rt2 = identities rt1"
    using ContainerInspect_identities [of cid rt1] i by simp
  have c1: "calls rt1 = calls (engine w) @ [CallContainerCreate name opts]"
    using ContainerCreate_calls [of opts name "engine w"] c by simp
  have c2: "calls rt2 = calls rt1 @ [CallContainerInspect cid]"
    using ContainerInspect_calls [of cid rt1] i by simp
  from q obtain more where
    "projectRef (snd (createMobyContainer co service name number inherit autoRemove una w)) = projectRef w"
    "identities (engine (snd (createMobyContainer co service name number inherit autoRemove una w))) = identities rt2"
    "calls (engine (snd (createMobyContainer co service name number inherit autoRemove una w))) = calls rt2 @ more"
    unfolding res quiet_def by auto
  with o fresh id1 id2 c1 c2 show ?thesis by auto
qed

lemma ContainerRename_success:
  "fst (ContainerRename cid newName rt) = None \<Longrightarrow> hasContainer rt cid"
  by (simp add: ContainerRename_def Let_def logCall_def hasContainer_def split: if_splits)

lemma slice_to_Inr: "slice_to xs n = Inr ys \<Longrightarrow> 0 \<le> n \<and> n \<le> int (length xs) \<and> ys = take (nat n) xs"
  by (auto simp: slice_to_def split: if_splits)

lemma recreateContainer_success:
  assumes "fst (recreateContainer co service container inherit timeout w) = None"
  shows "\<exists>number opts rt cid more.
           12 \<le> length (ID container) \<and>
           Atoi (label container ContainerNumberLabel) = Inr number \<and>
           getCreateOptions co rt (projectRef w) service number
             (if inherit then Some container else None) False = Inr opts \<and>
           calls (engine (snd (recreateContainer co service container inherit timeout w))) =
             calls (engine w) @
             [CallContainerStop (ID container) timeout,
              CallContainerRename (ID container)
                (take 12 (ID container) @ ''_'' @ getCanonicalContainerName co container),
              CallContainerCreate (getCanonicalContainerName co container) opts] @
             more @ [CallContainerRemove (ID container)] \<and>
           cid \<noteq> ID container \<and>
           (cid, CHR ''/'' # getCanonicalContainerName co container, ConfigLabels opts)
             \<in> set (identities (engine (snd (recreateContainer co service container inherit timeout w)))) \<and>
           \<not> hasContainer (engine (snd (recreateContainer co service container inherit timeout w)))
               (ID container) \<and>
           projectRef (snd (recreateContainer co service container inherit timeout w)) =
             setDependentLifecycle co (projectRef w) (Name service) forceRecreate"
proof -
  let ?name = "getCanonicalContainerName co container"
  let ?w0 = "emit (NewEvent (getContainerProgressName co container) Working ''Recreate'') w"
  have w0: "engine ?w0 = engine w" "projectRef ?w0 = projectRef w" by (simp_all add: emit_def)
  obtain e1 rt1 where s1: "ContainerStop (ID container) timeout (engine w) = (e1, rt1)"
    by (cases "ContainerStop (ID container) timeout (engine w)")
  from assms s1 have e1: "e1 = None"
    by (cases e1) (auto simp: recreateContainer_def Let_def w0)
  from assms s1 e1 obtain shortID where sl: "slice_to (ID container) 12 = Inr shortID"
    by (cases "slice_to (ID container) 12") (auto simp: recreateContainer_def Let_def w0)
  from slice_to_Inr [OF sl] have len: "12 \<le> length (ID container)" and sh: "shortID = take 12 (ID container)"
    by simp_all
  let ?tmp = "take 12 (ID container) @ ''_'' @ ?name"
  obtain e2 rt2 where s2: "ContainerRename (ID container) ?tmp rt1 = (e2, rt2)"
    by (cases "ContainerRename (ID container) ?tmp rt1")
  from assms s1 e1 sl sh s2 have e2: "e2 = None"
    by (cases e2) (auto simp: recreateContainer_def Let_def w0)
  from assms s1 e1 sl sh s2 e2 obtain number where at: "Atoi (label container ContainerNumberLabel) = Inr number"
    by (cases "Atoi (label container ContainerNumberLabel)") (auto simp: recreateContainer_def Let_def w0)
  let ?w2 = "?w0\<lparr>engine := rt1\<rparr>\<lparr>engine := rt2\<rparr>"
  let ?inh = "if inherit then Some container else None"
  obtain e3 w3 where s3: "createMobyContainer co service ?name number ?inh False True ?w2 = (e3, w3)"
    by (cases "createMobyContainer co service ?name number ?inh False True ?w2")
  from assms s1 e1 sl sh s2 e2 at s3 have e3: "e3 = None"
    by (cases e3) (auto simp: recreateContainer_def Let_def w0)
  obtain e4 rt4 where s4: "ContainerRemove (ID container) (engine w3) = (e4, rt4)"
    by (cases "ContainerRemove (ID container) (engine w3)")
  from assms s1 e1 sl sh s2 e2 at s3 e3 s4 have e4: "e4 = None"
    by (cases e4) (auto simp: recreateContainer_def Let_def w0)
  let ?w5 = "emit (NewEvent (getContainerProgressName co container) Done ''Recreated'') (w3\<lparr>engine := rt4\<rparr>)"
  have res: "recreateContainer co service container inherit timeout w =
      (None, ?w5\<lparr>projectRef := setDependentLifecycle co (projectRef ?w5) (Name service) forceRecreate\<rparr>)"
    using s1 e1 sl sh s2 e2 at s3 e3 s4 e4 by (simp add: recreateContainer_def Let_def w0)
  have c1: "calls rt1 = calls (engine w) @ [CallContainerStop (ID container) timeout]"
    using ContainerStop_calls [of "ID container" timeout "engine w"] s1 by simp
  have c2: "calls rt2 = calls rt1 @ [CallContainerRename (ID container) ?tmp]"
    using ContainerRename_calls [of "ID container" ?tmp rt1] s2 by simp
  have has1: "hasContainer rt1 (ID container)"
    using ContainerRename_success [of "ID container" ?tmp rt1] s2 e2 by simp
  have "map fst (identities rt2) = map fst (identities rt1)"
    using ContainerRename_ids [of "ID container" ?tmp rt1] s2 by simp
  then have "fst ` set (identities rt2) = fst ` set (identities rt1)"
    by (metis set_map)
  with has1 have has2: "hasContainer rt2 (ID container)"
    by (simp add: hasContainer_identities)
  from createMobyContainer_success [of co service ?name number ?inh False True ?w2] s3 e3
  obtain opts cid more where
    o: "getCreateOptions co rt2 (projectRef w) service number ?inh False = Inr opts"
    and fresh: "\<not> hasContainer rt2 cid"
    and p3: "projectRef w3 = projectRef w"
    and i3: "identities (engine w3) = identities rt2 @ [(cid, CHR ''/'' # ?name, ConfigLabels opts)]"
    and c3: "calls (engine w3) = calls rt2 @ CallContainerCreate ?name opts # more"
    by (auto simp: w0)
  from has2 fresh have ne: "cid \<noteq> ID container" by auto
  have c4: "calls rt4 = calls (engine w3) @ [CallContainerRemove (ID container)]"
    using ContainerRemove_calls [of "ID container" "engine w3"] s4 by simp
  have i4: "identities rt4 = filter (\<lambda>i. fst i \<noteq> ID container) (identities (engine w3))"
    using ContainerRemove_identities [of "ID container" "engine w3"] s4 e4 by simp
  have gone: "\<not> hasContainer rt4 (ID container)"
    by (auto simp: hasContainer_identities i4)
  have there: "(cid, CHR ''/'' # ?name, ConfigLabels opts) \<in> set (identities rt4)"
    using ne by (simp add: i4 i3)
  have eng: "engine (snd (recreateContainer co service container inherit timeout w)) = rt4"
    and prj: "projectRef (snd (recreateContainer co service container inherit timeout w)) =
        setDependentLifecycle co (projectRef w) (Name service) forceRecreate"
    by (simp_all add: res emit_def p3)
  have cl: "calls rt4 = calls (engine w) @
             [CallContainerStop (ID container) timeout,
              CallContainerRename (ID container) ?tmp,
              CallContainerCreate ?name opts] @ more @ [CallContainerRemove (ID container)]"
    by (simp add: c4 c3 c2 c1)
  show ?thesis
    unfolding eng prj using len at o cl ne there gone by blast
qed

lemma identities_listing:
  "set (listing rt) = (\<lambda>c. summary c) ` set (containers rt)"
  by (simp add: listing_def)

lemma listing_ids: "ID ` set (listing rt) = fst ` set (identities rt)"
  by (force simp: listing_def identities_def summary_def image_iff)

lemma listing_identity:
  "(cid, n, ls) \<in> set (identities rt) \<Longrightarrow>
   \<exists>c \<in> set (listing rt). ID c = cid \<and> Names c = [n] \<and> Labels c = ls"
  by (auto simp: listing_def identities_def summary_def)

text \<open>
  C6. When \<^verbatim>\<open>recreateContainer\<close> returns \<^verbatim>\<open>nil\<close>, the identifier of the old container has
  at least 12 characters, its number label is a number, and the calls made to the runtime
  are, in this order: the stop of the old container; its renaming to its first 12
  characters, an underscore and its canonical name; the creation, under the canonical
  name, of a container with the options that \<^verbatim>\<open>getCreateOptions\<close> gives for this number;
  the calls that inspect and attach the new container; the removal of the old
  container. Afterwards the engine lists a container with the canonical name and the
  labels of these options, and lists no container with the old identifier.
\<close>

theorem recreateContainer_replaces:
  assumes "fst (recreateContainer co service container inherit timeout w) = None"
    and "w' = snd (recreateContainer co service container inherit timeout w)"
    and "name = getCanonicalContainerName co container"
  shows "\<exists>number opts rt more.
           12 \<le> length (ID container) \<and>
           Atoi (label container ContainerNumberLabel) = Inr number \<and>
           getCreateOptions co rt (projectRef w) service number
             (if inherit then Some container else None) False = Inr opts \<and>
           calls (engine w') =
             calls (engine w) @
             [CallContainerStop (ID container) timeout,
              CallContainerRename (ID container) (take 12 (ID container) @ ''_'' @ name),
              CallContainerCreate name opts] @
             more @ [CallContainerRemove (ID container)] \<and>
           (\<exists>c \<in> set (listing (engine w')).
              Names c = [CHR ''/'' # name] \<and> Labels c = ConfigLabels opts \<and> ID c \<noteq> ID container) \<and>
           ID container \<notin> ID ` set (listing (engine w'))"
proof -
  from recreateContainer_success [OF assms(1)] assms(2,3)
  obtain number opts rt cid more where
    len: "12 \<le> length (ID container)"
    and at: "Atoi (label container ContainerNumberLabel) = Inr number"
    and o: "getCreateOptions co rt (projectRef w) service number
             (if inherit then Some container else None) False = Inr opts"
    and cl: "calls (engine w') =
             calls (engine w) @
             [CallContainerStop (ID container) timeout,
              CallContainerRename (ID container) (take 12 (ID container) @ ''_'' @ name),
              CallContainerCreate name opts] @
             more @ [CallContainerRemove (ID container)]"
    and ne: "cid \<noteq> ID container"
    and there: "(cid, CHR ''/'' # name, ConfigLabels opts) \<in> set (identities (engine w'))"
    and gone: "\<not> hasContainer (engine w') (ID container)"
    by blast
  from listing_identity [OF there] ne
  have new: "\<exists>c \<in> set (listing (engine w')).
      Names c = [CHR ''/'' # name] \<and> Labels c = ConfigLabels opts \<and> ID c \<noteq> ID container"
    by auto
  from gone have old: "ID container \<notin> ID ` set (listing (engine w'))"
    by (simp add: hasContainer_identities listing_ids)
  from len at o cl new old show ?thesis by blast
qed

lemma dbJSON_summary:
  "ID (summary dbJSON) = ''0123456789abcdef''"
  "label (summary dbJSON) ContainerNumberLabel = ''1''"
  by (simp_all add: summary_def dbJSON_def label_def ServiceLabel_def OneoffLabel_def
      ContainerNumberLabel_def ConfigHashLabel_def)

lemma dbWorld_recreate:
  "fst (recreateContainer (exampleCollaborators ''new'' []) (plainService ''db'') (summary dbJSON)
          False None dbWorld) = None"
proof -
  have a1: "Atoi ''1'' = Inr 1" by (simp add: Atoi_def digit_of_def)
  have ids: "JSONID dbJSON = ''0123456789abcdef''" "JSONName dbJSON = ''/app_db_1''"
    by (simp_all add: dbJSON_def)
  show ?thesis
    by (simp add: recreateContainer_def dbWorld_def plainRuntime_def emit_def Let_def
      ContainerStop_def logCall_def hasContainer_def updateContainer_def dbJSON_summary
      slice_to_def ContainerRename_def nameInUse_def a1 createMobyContainer_def
      exampleCollaborators_def plainService_def ContainerCreate_def ContainerInspect_def
      getLinks_def ContainerRemove_def ids setStatus_def)
qed

theorem recreateContainer_replaces_witness:
  "fst (recreateContainer (exampleCollaborators ''new'' []) (plainService ''db'') (summary dbJSON)
          False None dbWorld) = None \<and>
   ID (summary dbJSON) \<notin> ID ` set (listing (engine (snd
     (recreateContainer (exampleCollaborators ''new'' []) (plainService ''db'') (summary dbJSON)
          False None dbWorld)))) \<and>
   (\<exists>opts more.
      calls (engine (snd
        (recreateContainer (exampleCollaborators ''new'' []) (plainService ''db'') (summary dbJSON)
          False None dbWorld))) =
      [CallContainerStop ''0123456789abcdef'' None,
       CallContainerRename ''0123456789abcdef'' ''0123456789ab_app_db_1'',
       CallContainerCreate ''app_db_1'' opts] @ more @ [CallContainerRemove ''0123456789abcdef''])"
proof -
  have nm: "''app_db_1'' = getCanonicalContainerName (exampleCollaborators ''new'' []) (summary dbJSON)"
    by (simp add: exampleCollaborators_def summary_def dbJSON_def)
  have cl: "calls (engine dbWorld) = []" by (simp add: dbWorld_def plainRuntime_def)
  from recreateContainer_replaces [OF dbWorld_recreate refl nm] dbWorld_recreate cl
  show ?thesis by (auto simp: dbJSON_summary)
qed



section \<open>Properties of the task group and of repeated reconciliation\<close>

text \<open>
  C10. With the policy \<^verbatim>\<open>never\<close>, whenever \<^verbatim>\<open>ensureScale\<close> returns no error,
  \<^verbatim>\<open>ensureService\<close> returns \<^verbatim>\<open>nil\<close> without waiting for the group: the tasks that
  \<^verbatim>\<open>ensureScale\<close> scheduled still run, and whatever they return is dropped. In the
  witness the engine answers every call with an error, the one creation scheduled fails,
  and \<^verbatim>\<open>ensureService\<close> returns \<^verbatim>\<open>nil\<close>; with the policy \<^verbatim>\<open>diverged\<close> the same failure is
  returned.
\<close>

theorem ensureService_never_drops_failures:
  assumes "ensureScale (containerState w) (projectRef w) service = Inr (tasks, actual)"
  shows "fst (ensureService co service RecreateNever inherit timeout w) = None \<and>
         snd (ensureService co service RecreateNever inherit timeout w) =
           snd (runTasks co service inherit timeout tasks w)"
proof -
  have plan: "ensureService_schedule co (containerState w) (projectRef w) service RecreateNever =
      \<lparr>scheduled = tasks, emitted = [], returned = Some None\<rparr>"
    using assms by (simp add: ensureService_schedule_def)
  have w: "w\<lparr>events := events w @ []\<rparr> = w" by simp
  show ?thesis
    by (simp add: ensureService_def plan w split_beta)
qed

lemma show_int_1: "show_int 1 = ''1''"
  by code_simp

lemma downWorld_scale:
  "ensureScale (containerState downWorld) (projectRef downWorld) (plainService ''web'') =
     Inr ([CreateTask ''app_web_1'' 1], [])"
proof -
  have nx: "nextContainerNumber [] = Inr 1" by (simp add: nextContainerNumber_def)
  have nm: "getContainerName ''app'' (plainService ''web'') 1 = ''app_web_1''"
    by (simp add: getContainerName_def plainService_def show_int_1)
  show ?thesis
    by (simp add: ensureScale_def downWorld_def getScale_plain nx scheduleCreations_def
        plainProject_def nm)
qed

lemma downWorld_run:
  "fst (runTasks (exampleCollaborators ''h'' []) (plainService ''web'') False None
          [CreateTask ''app_web_1'' 1] downWorld) = [Some (RuntimeError ''create'')]"
  by (simp add: createContainer_def createMobyContainer_def downWorld_def downRuntime_def
      emit_def exampleCollaborators_def plainService_def ContainerCreate_def logCall_def Let_def)

lemma downWorld_diverged:
  "fst (ensureService (exampleCollaborators ''h'' []) (plainService ''web'') ''diverged'' False None
          downWorld) = Some (RuntimeError ''create'')"
proof -
  have pol: "''diverged'' \<noteq> RecreateNever" by (simp add: RecreateNever_def)
  have hs: "ServiceHash (exampleCollaborators ''h'' []) (plainService ''web'') = Inr ''h''"
    by (simp add: exampleCollaborators_def)
  have plan: "ensureService_schedule (exampleCollaborators ''h'' []) (containerState downWorld)
      (projectRef downWorld) (plainService ''web'') ''diverged'' =
      \<lparr>scheduled = [CreateTask ''app_web_1'' 1], emitted = [], returned = None\<rparr>"
    by (simp add: ensureService_schedule_def downWorld_scale pol hs)
  have w: "downWorld\<lparr>events := events downWorld @ []\<rparr> = downWorld" by simp
  obtain outcomes w2 where run: "runTasks (exampleCollaborators ''h'' []) (plainService ''web'') False None
          [CreateTask ''app_web_1'' 1] downWorld = (outcomes, w2)"
    by (cases "runTasks (exampleCollaborators ''h'' []) (plainService ''web'') False None
          [CreateTask ''app_web_1'' 1] downWorld")
  with downWorld_run have out: "outcomes = [Some (RuntimeError ''create'')]" by simp
  show ?thesis
    unfolding ensureService_def Let_def plan
    by (simp only: Schedule.simps w run out split egWait.simps option.case fst_conv)
qed

theorem ensureService_never_drops_failures_witness:
  "ensureScale (containerState downWorld) (projectRef downWorld) (plainService ''web'') =
     Inr ([CreateTask ''app_web_1'' 1], []) \<and>
   fst (runTasks (exampleCollaborators ''h'' []) (plainService ''web'') False None
          [CreateTask ''app_web_1'' 1] downWorld) = [Some (RuntimeError ''create'')] \<and>
   fst (ensureService (exampleCollaborators ''h'' []) (plainService ''web'') RecreateNever False None
          downWorld) = None \<and>
   fst (ensureService (exampleCollaborators ''h'' []) (plainService ''web'') ''diverged'' False None
          downWorld) = Some (RuntimeError ''create'')"
proof -
  note inst = ensureService_never_drops_failures [OF downWorld_scale,
      of "exampleCollaborators ''h'' []" False None, THEN conjunct1]
  from downWorld_scale downWorld_run inst downWorld_diverged show ?thesis by blast
qed

lemma scheduleRemovals_drop:
  "0 \<le> s \<Longrightarrow> s \<le> int (length actual) \<Longrightarrow>
   scheduleRemovals actual [s .. int (length actual) - 1] =
     Inr (map StopRemoveTask (drop (nat s) actual))"
proof (induction "nat (int (length actual) - s)" arbitrary: s)
  case 0
  then have "s = int (length actual)" by simp
  then show ?case by simp
next
  case (Suc n)
  then have lt: "s < int (length actual)" by linarith
  have up: "[s .. int (length actual) - 1] = s # [s + 1 .. int (length actual) - 1]"
    using lt by (simp add: upto_rec1)
  have n: "n = nat (int (length actual) - (s + 1))" using Suc.hyps(2) by linarith
  have IH: "scheduleRemovals actual [s + 1 .. int (length actual) - 1] =
     Inr (map StopRemoveTask (drop (nat (s + 1)) actual))"
    using Suc.hyps(1) [OF n] Suc.prems lt by simp
  have ix: "index_at actual s = Inr (actual ! nat s)"
    using Suc.prems lt by (simp add: index_at_def)
  have dr: "drop (nat s) actual = actual ! nat s # drop (nat (s + 1)) actual"
    using Suc.prems lt by (simp add: Cons_nth_drop_Suc nat_add_distrib)
  show ?case by (simp add: up IH ix dr)
qed

lemma scheduleRemovals_negative:
  "s < 0 \<Longrightarrow> scheduleRemovals actual [s .. int (length actual) - 1] = Inl PanicIndexOutOfRange"
proof -
  assume s: "s < 0"
  then have "[s .. int (length actual) - 1] = s # [s + 1 .. int (length actual) - 1]"
    by (simp add: upto_rec1)
  then show ?thesis using s by (simp add: index_at_def)
qed

lemma ensureScale_cases:
  assumes "ensureScale (Some st) proj service = Inr (tasks, retained)"
    and "actual = filter isNotOneOff (filter (isService (Name service)) st)"
  obtains (up) scale "next" where "getScale service = Inr scale" "int (length actual) < sint scale"
      "tasks = scheduleCreations proj service next (sint scale - int (length actual))"
      "retained = actual"
  | (same) scale where "getScale service = Inr scale" "int (length actual) = sint scale"
      "tasks = []" "retained = actual"
  | (down) scale where "getScale service = Inr scale" "sint scale < int (length actual)"
      "0 \<le> sint scale"
      "tasks = map StopRemoveTask (drop (nat (sint scale)) actual)"
      "retained = take (nat (sint scale)) actual"
proof -
  from assms obtain scale where sc: "getScale service = Inr scale"
    by (cases "getScale service") (auto simp: ensureScale_def Let_def)
  consider "int (length actual) < sint scale" | "int (length actual) = sint scale"
    | "sint scale < int (length actual)" by linarith
  then show thesis
  proof cases
    case 1
    with assms sc obtain "next" where "nextContainerNumber actual = Inr next"
      by (cases "nextContainerNumber actual") (auto simp: ensureScale_def Let_def)
    with assms sc 1 show ?thesis
      by (intro up [of scale "next"]) (auto simp: ensureScale_def Let_def)
  next
    case 2
    with assms sc show ?thesis
      by (intro same [of scale]) (auto simp: ensureScale_def Let_def)
  next
    case 3
    have nn: "0 \<le> sint scale"
    proof (rule ccontr)
      assume "\<not> 0 \<le> sint scale"
      then have "sint scale < 0" by simp
      from scheduleRemovals_negative [OF this, of actual] assms sc 3
      show False by (simp add: ensureScale_def Let_def)
    qed
    have rm: "scheduleRemovals actual [sint scale .. int (length actual) - 1] =
        Inr (map StopRemoveTask (drop (nat (sint scale)) actual))"
      using scheduleRemovals_drop [of "sint scale" actual] nn 3 by simp
    from assms sc 3 nn rm show ?thesis
      by (intro down [of scale]) (auto simp: ensureScale_def Let_def slice_to_def)
  qed
qed

lemma belongs_summary:
  "belongs pn sn (summary j) = labelsBelong pn sn (ConfigLabelsOf j)"
  by (simp add: belongs_def labelsBelong_def summary_def label_def isService_def isNotOneOff_def)

lemma actual_fresh:
  "filter isNotOneOff (filter (isService sn) (filter (\<lambda>c. label c ProjectLabel = pn) xs)) =
     filter (belongs pn sn) xs"
  by (induction xs) (auto simp: belongs_def)

lemma belonging_ids:
  "map ID (filter (belongs pn sn) (listing rt)) =
     map fst (filter (\<lambda>i. labelsBelong pn sn (snd (snd i))) (identities rt))"
proof -
  have "map ID (filter (belongs pn sn) (map summary js)) =
     map fst (filter (\<lambda>i. labelsBelong pn sn (snd (snd i)))
               (map (\<lambda>c. (JSONID c, JSONName c, ConfigLabelsOf c)) js))" for js
    by (induction js) (auto simp: belongs_summary, simp_all add: summary_def)
  then show ?thesis by (simp add: listing_def identities_def)
qed

lemma belonging_count:
  "length (filter (belongs pn sn) (listing rt)) =
     length (filter (\<lambda>i. labelsBelong pn sn (snd (snd i))) (identities rt))"
  using arg_cong [OF belonging_ids [of pn sn rt], of length] by simp

lemma createContainer_success:
  assumes "fst (createContainer co service name number autoRemove una w) = None"
  shows "\<exists>opts cid.
           getCreateOptions co (engine w) (projectRef w) service number None autoRemove = Inr opts \<and>
           projectRef (snd (createContainer co service name number autoRemove una w)) = projectRef w \<and>
           identities (engine (snd (createContainer co service name number autoRemove una w))) =
             identities (engine w) @ [(cid, CHR ''/'' # name, ConfigLabels opts)]"
proof -
  let ?w0 = "emit (CreatingEvent (''Container '' @ name)) w"
  have w0: "engine ?w0 = engine w" "projectRef ?w0 = projectRef w" by (simp_all add: emit_def)
  obtain e w1 where m: "createMobyContainer co service name number None autoRemove una ?w0 = (e, w1)"
    by (cases "createMobyContainer co service name number None autoRemove una ?w0")
  from assms m have e: "e = None"
    by (cases e) (auto simp: createContainer_def Let_def)
  have res: "createContainer co service name number autoRemove una w =
      (None, emit (CreatedEvent (''Container '' @ name)) w1)"
    using m e by (simp add: createContainer_def Let_def)
  from createMobyContainer_success [of co service name number None autoRemove una ?w0] m e
  obtain opts cid where
    "getCreateOptions co (engine w) (projectRef w) service number None autoRemove = Inr opts"
    "projectRef w1 = projectRef w"
    "identities (engine w1) = identities (engine w) @ [(cid, CHR ''/'' # name, ConfigLabels opts)]"
    by (auto simp: emit_def)
  then show ?thesis by (auto simp: res emit_def)
qed

lemma runTasks_creations:
  assumes "\<And>rt number inherit autoRemove opts.
             getCreateOptions co rt proj service number inherit autoRemove = Inr opts \<Longrightarrow>
             labelsBelong pn sn (ConfigLabels opts)"
  shows "projectRef w = proj \<Longrightarrow>
         \<forall>t \<in> set ts. \<exists>name number. t = CreateTask name number \<Longrightarrow>
         runTasks co service inherit timeout ts w = (outcomes, w') \<Longrightarrow>
         list_all (\<lambda>r. r = None) outcomes \<Longrightarrow>
         projectRef w' = proj \<and>
         (\<exists>news. identities (engine w') = identities (engine w) @ news \<and> length news = length ts \<and>
                 (\<forall>i \<in> set news. labelsBelong pn sn (snd (snd i))))"
proof (induction ts arbitrary: w outcomes)
  case Nil
  then show ?case by simp
next
  case (Cons t ts)
  from Cons.prems(2) obtain name number where t: "t = CreateTask name number" by auto
  obtain r w1 where r: "createContainer co service name number False True w = (r, w1)"
    by (cases "createContainer co service name number False True w")
  obtain rs w2 where rs: "runTasks co service inherit timeout ts w1 = (rs, w2)"
    by (cases "runTasks co service inherit timeout ts w1")
  from Cons.prems(3) t r rs have out: "outcomes = r # rs" and w': "w' = w2" by simp_all
  from Cons.prems(4) out have rn: "r = None" and rsn: "list_all (\<lambda>r. r = None) rs" by simp_all
  from createContainer_success [of co service name number False True w] r rn
  obtain opts cid where
    o: "getCreateOptions co (engine w) (projectRef w) service number None False = Inr opts"
    and p1: "projectRef w1 = projectRef w"
    and i1: "identities (engine w1) = identities (engine w) @ [(cid, CHR ''/'' # name, ConfigLabels opts)]"
    by auto
  have lb: "labelsBelong pn sn (ConfigLabels opts)"
    using assms o Cons.prems(1) by blast
  from Cons.IH [of w1 rs] p1 Cons.prems(1,2) rs rsn w'
  obtain news where p2: "projectRef w' = proj"
    and i2: "identities (engine w') = identities (engine w1) @ news"
    and l2: "length news = length ts"
    and b2: "\<forall>i \<in> set news. labelsBelong pn sn (snd (snd i))"
    by auto
  let ?news = "(cid, CHR ''/'' # name, ConfigLabels opts) # news"
  have "identities (engine w') = identities (engine w) @ ?news" by (simp add: i2 i1)
  moreover have "length ?news = length (t # ts)" by (simp add: l2)
  moreover have "\<forall>i \<in> set ?news. labelsBelong pn sn (snd (snd i))" using lb b2 by simp
  ultimately show ?case using p2 by blast
qed

lemma stopAndRemove_success:
  assumes "fst (stopAndRemove c timeout w) = None"
  shows "projectRef (snd (stopAndRemove c timeout w)) = projectRef w \<and>
         identities (engine (snd (stopAndRemove c timeout w))) =
           filter (\<lambda>i. fst i \<noteq> ID c) (identities (engine w))"
proof -
  obtain e1 rt1 where s: "ContainerStop (ID c) timeout (engine w) = (e1, rt1)"
    by (cases "ContainerStop (ID c) timeout (engine w)")
  from assms s have e1: "e1 = None" by (cases e1) (auto simp: stopAndRemove_def)
  obtain e2 rt2 where r: "ContainerRemove (ID c) rt1 = (e2, rt2)"
    by (cases "ContainerRemove (ID c) rt1")
  from assms s e1 r have e2: "e2 = None" by (simp add: stopAndRemove_def)
  have res: "stopAndRemove c timeout w = (None, w\<lparr>engine := rt2\<rparr>)"
    using s e1 r e2 by (simp add: stopAndRemove_def)
  have i1: "identities rt1 = identities (engine w)"
    using ContainerStop_identities [of "ID c" timeout "engine w"] s by simp
  have i2: "identities rt2 = filter (\<lambda>i. fst i \<noteq> ID c) (identities rt1)"
    using ContainerRemove_identities [of "ID c" rt1] r e2 by simp
  show ?thesis by (simp add: res i2 i1)
qed

lemma runTasks_removals:
  "runTasks co service inherit timeout (map StopRemoveTask cs) w = (outcomes, w') \<Longrightarrow>
   list_all (\<lambda>r. r = None) outcomes \<Longrightarrow>
   projectRef w' = projectRef w \<and>
   identities (engine w') = filter (\<lambda>i. fst i \<notin> ID ` set cs) (identities (engine w))"
proof (induction cs arbitrary: w outcomes w')
  case Nil
  then show ?case by simp
next
  case (Cons c cs)
  obtain r w1 where r: "stopAndRemove c timeout w = (r, w1)"
    by (cases "stopAndRemove c timeout w")
  obtain rs w2 where rs: "runTasks co service inherit timeout (map StopRemoveTask cs) w1 = (rs, w2)"
    by (cases "runTasks co service inherit timeout (map StopRemoveTask cs) w1")
  from Cons.prems(1) r rs have out: "outcomes = r # rs" and w': "w' = w2" by simp_all
  from Cons.prems(2) out have rn: "r = None" and rsn: "list_all (\<lambda>r. r = None) rs" by simp_all
  from stopAndRemove_success [of c timeout w] r rn
  have p1: "projectRef w1 = projectRef w"
    and i1: "identities (engine w1) = filter (\<lambda>i. fst i \<noteq> ID c) (identities (engine w))"
    by simp_all
  from Cons.IH [OF rs rsn] w'
  have p2: "projectRef w' = projectRef w1"
    and i2: "identities (engine w') = filter (\<lambda>i. fst i \<notin> ID ` set cs) (identities (engine w1))"
    by simp_all
  have "identities (engine w') = filter (\<lambda>i. fst i \<notin> ID ` set (c # cs)) (identities (engine w))"
    by (simp add: i2 i1 conj_commute)
  with p1 p2 show ?case by simp
qed

lemma filter_not_in_drop:
  assumes "distinct (map f xs)"
  shows "filter (\<lambda>x. f x \<notin> f ` set (drop k xs)) xs = take k xs"
proof -
  have d: "distinct (map f (take k xs) @ map f (drop k xs))"
    using assms by (metis append_take_drop_id map_append)
  then have disj: "f ` set (take k xs) \<inter> f ` set (drop k xs) = {}"
    by (simp add: )
  have "filter (\<lambda>x. f x \<notin> f ` set (drop k xs)) (take k xs @ drop k xs) = take k xs"
  proof -
    have a: "filter (\<lambda>x. f x \<notin> f ` set (drop k xs)) (take k xs) = take k xs"
      using disj by (intro filter_True) auto
    have b: "filter (\<lambda>x. f x \<notin> f ` set (drop k xs)) (drop k xs) = []"
      by (intro filter_False) auto
    show ?thesis by (simp only: filter_append a b append_Nil2)
  qed
  then show ?thesis unfolding append_take_drop_id .
qed

lemma identities_ids: "map fst (identities rt) = map JSONID (containers rt)"
  by (simp add: identities_def comp_def)

lemma scheduleCreations_tasks:
  "\<forall>t \<in> set (scheduleCreations proj service next missing). \<exists>name number. t = CreateTask name number"
  "length (scheduleCreations proj service next missing) = nat missing"
  by (auto simp: scheduleCreations_def Let_def)

text \<open>
  On a fresh snapshot of the engine, taken again after the tasks have run, the second
  run schedules nothing in every case: let an operation start with a fresh snapshot of
  an engine whose containers have distinct identifiers, let \<^verbatim>\<open>ensureScale\<close> schedule its
  tasks, and let every task run to its end and return \<^verbatim>\<open>nil\<close>. Let the containers that
  the service is created with carry the labels by which the snapshot finds them. Then
  \<^verbatim>\<open>ensureScale\<close> on a fresh snapshot of the engine as the tasks left it returns no
  error and schedules neither a creation nor a removal.
\<close>

lemma ensureScale_fresh_snapshot:
  assumes fresh: "containerState w = freshState (ProjectName (projectRef w)) (engine w)"
    and ids: "distinct (map JSONID (containers (engine w)))"
    and labels: "\<forall>rt number inherit autoRemove opts.
        getCreateOptions co rt (projectRef w) service number inherit autoRemove = Inr opts \<longrightarrow>
        labelsBelong (ProjectName (projectRef w)) (Name service) (ConfigLabels opts)"
    and first: "ensureScale (containerState w) (projectRef w) service = Inr (tasks, retained)"
    and finished: "list_all (\<lambda>r. r = None) (fst (runTasks co service inherit timeout tasks w))"
    and after: "w' = snd (runTasks co service inherit timeout tasks w)"
  shows "\<exists>actual'.
           ensureScale (freshState (ProjectName (projectRef w')) (engine w')) (projectRef w') service =
             Inr ([], actual')"
proof -
  let ?pn = "ProjectName (projectRef w)"
  let ?sn = "Name service"
  let ?Q = "\<lambda>i :: string \<times> string \<times> (string \<rightharpoonup> string). labelsBelong ?pn ?sn (snd (snd i))"
  define st where "st = filter (\<lambda>c. label c ProjectLabel = ?pn) (listing (engine w))"
  define actual where "actual = filter (belongs ?pn ?sn) (listing (engine w))"
  have act: "actual = filter isNotOneOff (filter (isService ?sn) st)"
    unfolding actual_def st_def by (rule actual_fresh [symmetric])
  have first': "ensureScale (Some st) (projectRef w) service = Inr (tasks, retained)"
    using first fresh by (simp add: freshState_def st_def)
  obtain outcomes where run: "runTasks co service inherit timeout tasks w = (outcomes, w')"
    using after by (cases "runTasks co service inherit timeout tasks w") simp
  with finished have fin: "list_all (\<lambda>r. r = None) outcomes" by simp
  have second: "ensureScale (freshState ?pn (engine w')) (projectRef w) service =
      Inr ([], filter (belongs ?pn ?sn) (listing (engine w')))"
    if sc: "getScale service = Inr scale"
      and cnt: "int (length (filter ?Q (identities (engine w')))) = sint scale" for scale
  proof -
    have eq: "filter isNotOneOff (filter (isService ?sn)
            (filter (\<lambda>c. label c ProjectLabel = ?pn) (listing (engine w')))) =
          filter (belongs ?pn ?sn) (listing (engine w'))"
      by (rule actual_fresh)
    have "int (length (filter isNotOneOff (filter (isService ?sn)
            (filter (\<lambda>c. label c ProjectLabel = ?pn) (listing (engine w')))))) = sint scale"
      unfolding eq using cnt by (simp only: belonging_count)
    from ensureScale_at_scale [OF sc this, of "projectRef w"]
    show ?thesis unfolding freshState_def eq .
  qed
  from first' act show ?thesis
  proof (cases rule: ensureScale_cases)
    case (up scale "next")
    let ?n = "nat (sint scale - int (length actual))"
    have lab: "labelsBelong ?pn ?sn (ConfigLabels opts)"
      if "getCreateOptions co rt (projectRef w) service number inh ar = Inr opts"
      for rt number inh ar opts
      using labels that by blast
    from runTasks_creations [of co "projectRef w" service ?pn ?sn w tasks inherit timeout outcomes w']
      lab run fin up(3) scheduleCreations_tasks(1)
    obtain news where p: "projectRef w' = projectRef w"
      and i: "identities (engine w') = identities (engine w) @ news"
      and l: "length news = length tasks"
      and b: "\<forall>i \<in> set news. ?Q i"
      by blast
    have "filter ?Q news = news" using b by (intro filter_True) simp
    then have "length (filter ?Q (identities (engine w'))) = length actual + length tasks"
      by (simp add: i l actual_def belonging_count)
    also have "length tasks = ?n" by (simp add: up(3) scheduleCreations_tasks(2))
    finally have "int (length (filter ?Q (identities (engine w')))) = sint scale"
      using up(2) by simp
    from second [OF up(1) this] p show ?thesis by auto
  next
    case (same scale)
    then have "w' = w" using run by simp
    with first fresh same show ?thesis by auto
  next
    case (down scale)
    let ?k = "nat (sint scale)"
    let ?A = "filter ?Q (identities (engine w))"
    from runTasks_removals [of co service inherit timeout "drop ?k actual" w outcomes w'] run fin down(4)
    have p: "projectRef w' = projectRef w"
      and i: "identities (engine w') =
          filter (\<lambda>i. fst i \<notin> ID ` set (drop ?k actual)) (identities (engine w))"
      by simp_all
    have mA: "map fst ?A = map ID actual" by (simp add: actual_def belonging_ids)
    have "ID ` set (drop ?k actual) = set (drop ?k (map ID actual))" by (simp add: drop_map)
    also have "\<dots> = fst ` set (drop ?k ?A)" by (simp add: mA [symmetric] drop_map)
    finally have R: "ID ` set (drop ?k actual) = fst ` set (drop ?k ?A)" .
    have dist: "distinct (map fst ?A)"
      using ids by (simp add: distinct_map_filter identities_ids)
    have "filter ?Q (identities (engine w')) = filter (\<lambda>i. fst i \<notin> fst ` set (drop ?k ?A)) ?A"
      unfolding i R by (simp add: conj_commute)
    also have "\<dots> = take ?k ?A" by (rule filter_not_in_drop [OF dist])
    finally have "length (filter ?Q (identities (engine w'))) = min (length ?A) ?k" by simp
    moreover have "length ?A = length actual" using arg_cong [OF mA, of length] by simp
    ultimately have "int (length (filter ?Q (identities (engine w')))) = sint scale"
      using down(2,3) by simp
    from second [OF down(1) this] p show ?thesis by auto
  qed
qed

lemma freshWorld_scale:
  "ensureScale (containerState freshWorld) (projectRef freshWorld) (plainService ''web'') =
     Inr ([CreateTask ''app_web_1'' 1], [])"
proof -
  have nx: "nextContainerNumber [] = Inr 1" by (simp add: nextContainerNumber_def)
  have sh: "show_int 1 = ''1''" by code_simp
  have nm: "getContainerName ''app'' (plainService ''web'') 1 = ''app_web_1''"
    by (simp add: getContainerName_def plainService_def sh)
  show ?thesis
    by (simp add: ensureScale_def freshWorld_def freshState_def listing_def plainRuntime_def
        getScale_plain nx scheduleCreations_def plainProject_def nm)
qed

lemma labelsServe_iff:
  "isService sn c \<and> isNotOneOff c \<longleftrightarrow> labelsServe sn (Labels c)"
  by (simp add: labelsServe_def isService_def isNotOneOff_def label_def)

lemma reconcileNetwork_containerState:
  "containerState (snd (reconcileNetwork service number cc cid links una netName w)) = containerState w"
  unfolding reconcileNetwork_def Let_def connectContainerToNetwork_def
  by (simp add: split_beta split: option.splits sum.splits bool.splits)

lemma reconcileNetworks_containerState:
  "containerState (snd (reconcileNetworks service number cc cid links una nets w)) = containerState w"
proof (induction nets arbitrary: w)
  case Nil
  show ?case by simp
next
  case (Cons netName rest)
  obtain e w1 where r: "reconcileNetwork service number cc cid links una netName w = (e, w1)"
    by (cases "reconcileNetwork service number cc cid links una netName w")
  have c1: "containerState w1 = containerState w"
    using reconcileNetwork_containerState [of service number cc cid links una netName w] r by simp
  show ?case using r c1 Cons.IH [of w1] by (cases e) simp_all
qed

lemma find_snoc:
  "find P (xs @ [y]) = (case find P xs of Some x \<Rightarrow> Some x | None \<Rightarrow> if P y then Some y else None)"
  by (induction xs) simp_all

lemma ContainerCreate_labels:
  assumes "ContainerCreate opts name rt = (Inr cid, rt1)"
    and "ContainerInspect cid rt1 = (Inr j, rt2)"
  shows "ConfigLabelsOf j = ConfigLabels opts"
proof -
  from assms(1) have fresh: "find (\<lambda>c. JSONID c = cid) (containers rt) = None"
    by (auto simp: ContainerCreate_def Let_def logCall_def hasContainer_def list_ex_iff find_None_iff
        split: if_splits list.splits)
  from assms(1) have c1: "containers rt1 = containers rt @
      [\<lparr>JSONID = cid, JSONName = CHR ''/'' # name, ConfigLabelsOf = ConfigLabels opts,
        Endpoints = EndpointsConfig opts,
        StateOf = Some \<lparr>Status = ''created'', ExitCode = 0, Health = None\<rparr>\<rparr>]"
    by (auto simp: ContainerCreate_def Let_def logCall_def split: if_splits list.splits)
  from assms(2) have "find (\<lambda>c. JSONID c = cid) (containers rt1) = Some j"
    by (auto simp: ContainerInspect_def Let_def logCall_def split: if_splits option.splits)
  then show ?thesis by (auto simp: c1 find_snoc fresh)
qed

lemma createMobyContainer_snapshot:
  assumes "fst (createMobyContainer co service name number inherit autoRemove una w) = None"
  shows "\<exists>observed opts cc.
           containerState w = Some observed \<and>
           getCreateOptions co (engine w) (projectRef w) service number inherit autoRemove = Inr opts \<and>
           containerState (snd (createMobyContainer co service name number inherit autoRemove una w)) =
             Some (observed @ [cc]) \<and>
           Labels cc = ConfigLabels opts"
proof -
  from assms obtain observed where st: "containerState w = Some observed"
    by (auto simp: createMobyContainer_def split: option.splits)
  from assms st obtain opts where
    o: "getCreateOptions co (engine w) (projectRef w) service number inherit autoRemove = Inr opts"
    by (auto simp: createMobyContainer_def split: sum.splits)
  from assms st o have pf: "(if Platform service \<noteq> [] then platformsParse co (Platform service) else None) = None"
    by (auto simp: createMobyContainer_def split: option.splits)
  obtain r1 rt1 where c: "ContainerCreate opts name (engine w) = (r1, rt1)"
    by (cases "ContainerCreate opts name (engine w)")
  from assms st o pf c obtain cid where r1: "r1 = Inr cid"
    by (cases r1) (auto simp: createMobyContainer_def)
  obtain r2 rt2 where i: "ContainerInspect cid rt1 = (r2, rt2)"
    by (cases "ContainerInspect cid rt1")
  from assms st o pf c r1 i obtain j where r2: "r2 = Inr j"
    by (cases r2) (auto simp: createMobyContainer_def)
  let ?cc = "\<lparr>ID = JSONID j, Names = [JSONName j], Labels = ConfigLabelsOf j, State = [],
              NetworkSettings = Endpoints j\<rparr>"
  let ?w1 = "w\<lparr>engine := rt2, containerState := Some (observed @ [?cc])\<rparr>"
  from assms st o pf c r1 i r2 obtain links where l: "getLinks co ?w1 service = Inr links"
    by (cases "getLinks co ?w1 service") (auto simp: createMobyContainer_def Let_def)
  have res: "createMobyContainer co service name number inherit autoRemove una w =
      reconcileNetworks service number ?cc cid links una (NetworksByPriority co service) ?w1"
    using st o pf c r1 i r2 l by (simp add: createMobyContainer_def Let_def)
  have lb: "Labels ?cc = ConfigLabels opts"
    using ContainerCreate_labels [of opts name "engine w" cid rt1 j rt2] c r1 i r2 by simp
  have "containerState (snd (createMobyContainer co service name number inherit autoRemove una w)) =
      Some (observed @ [?cc])"
    unfolding res by (simp add: reconcileNetworks_containerState)
  with st o lb show ?thesis by blast
qed

lemma createContainer_snapshot:
  assumes "fst (createContainer co service name number autoRemove una w) = None"
  shows "\<exists>observed opts cc.
           containerState w = Some observed \<and>
           getCreateOptions co (engine w) (projectRef w) service number None autoRemove = Inr opts \<and>
           containerState (snd (createContainer co service name number autoRemove una w)) =
             Some (observed @ [cc]) \<and>
           Labels cc = ConfigLabels opts \<and>
           projectRef (snd (createContainer co service name number autoRemove una w)) = projectRef w"
proof -
  let ?w0 = "emit (CreatingEvent (''Container '' @ name)) w"
  obtain e w1 where m: "createMobyContainer co service name number None autoRemove una ?w0 = (e, w1)"
    by (cases "createMobyContainer co service name number None autoRemove una ?w0")
  from assms m have e: "e = None"
    by (cases e) (auto simp: createContainer_def Let_def)
  have res: "createContainer co service name number autoRemove una w =
      (None, emit (CreatedEvent (''Container '' @ name)) w1)"
    using m e by (simp add: createContainer_def Let_def)
  from createMobyContainer_snapshot [of co service name number None autoRemove una ?w0] m e
  obtain observed opts cc where
    "containerState w = Some observed"
    "getCreateOptions co (engine w) (projectRef w) service number None autoRemove = Inr opts"
    "containerState w1 = Some (observed @ [cc])" "Labels cc = ConfigLabels opts"
    by (auto simp: emit_def)
  moreover from createContainer_success [OF assms]
  have "projectRef (snd (createContainer co service name number autoRemove una w)) = projectRef w"
    by blast
  ultimately show ?thesis by (auto simp: res emit_def)
qed

lemma runTasks_creations_snapshot:
  assumes "\<And>rt number inherit autoRemove opts.
             getCreateOptions co rt proj service number inherit autoRemove = Inr opts \<Longrightarrow>
             labelsServe sn (ConfigLabels opts)"
  shows "projectRef w = proj \<Longrightarrow> containerState w = Some observed \<Longrightarrow>
         \<forall>t \<in> set ts. \<exists>name number. t = CreateTask name number \<Longrightarrow>
         runTasks co service inherit timeout ts w = (outcomes, w') \<Longrightarrow>
         list_all (\<lambda>r. r = None) outcomes \<Longrightarrow>
         projectRef w' = proj \<and>
         (\<exists>news. containerState w' = Some (observed @ news) \<and> length news = length ts \<and>
                 (\<forall>c \<in> set news. labelsServe sn (Labels c)))"
proof (induction ts arbitrary: w outcomes observed)
  case Nil
  then show ?case by simp
next
  case (Cons t ts)
  from Cons.prems(3) obtain name number where t: "t = CreateTask name number" by auto
  obtain r w1 where r: "createContainer co service name number False True w = (r, w1)"
    by (cases "createContainer co service name number False True w")
  obtain rs w2 where rs: "runTasks co service inherit timeout ts w1 = (rs, w2)"
    by (cases "runTasks co service inherit timeout ts w1")
  from Cons.prems(4) t r rs have out: "outcomes = r # rs" and w': "w' = w2" by simp_all
  from Cons.prems(5) out have rn: "r = None" and rsn: "list_all (\<lambda>r. r = None) rs" by simp_all
  from createContainer_snapshot [of co service name number False True w] r rn Cons.prems(2)
  obtain opts cc where
    o: "getCreateOptions co (engine w) (projectRef w) service number None False = Inr opts"
    and s1: "containerState w1 = Some (observed @ [cc])"
    and lcc: "Labels cc = ConfigLabels opts"
    and p1: "projectRef w1 = projectRef w"
    by auto
  have lb: "labelsServe sn (Labels cc)"
    using assms o Cons.prems(1) lcc by simp
  from Cons.IH [of w1 "observed @ [cc]" rs] p1 s1 Cons.prems(1,3) rs rsn w'
  obtain news where p2: "projectRef w' = proj"
    and s2: "containerState w' = Some ((observed @ [cc]) @ news)"
    and l2: "length news = length ts"
    and b2: "\<forall>c \<in> set news. labelsServe sn (Labels c)"
    by auto
  have "containerState w' = Some (observed @ (cc # news))" by (simp add: s2)
  moreover have "length (cc # news) = length (t # ts)" by (simp add: l2)
  moreover have "\<forall>c \<in> set (cc # news). labelsServe sn (Labels c)" using lb b2 by simp
  ultimately show ?case using p2 by blast
qed

lemma stopAndRemove_context:
  "containerState (snd (stopAndRemove c timeout w)) = containerState w \<and>
   projectRef (snd (stopAndRemove c timeout w)) = projectRef w"
  by (simp add: stopAndRemove_def split_beta split: option.splits)

lemma runTasks_removals_context:
  "containerState (snd (runTasks co service inherit timeout (map StopRemoveTask cs) w)) = containerState w \<and>
   projectRef (snd (runTasks co service inherit timeout (map StopRemoveTask cs) w)) = projectRef w"
proof (induction cs arbitrary: w)
  case Nil
  show ?case by simp
next
  case (Cons c cs)
  show ?case
    using Cons.IH [of "snd (stopAndRemove c timeout w)"] stopAndRemove_context [of c timeout w]
    by (simp add: split_beta)
qed

lemma serving_filter:
  "filter isNotOneOff (filter (isService sn) xs) = filter (\<lambda>c. labelsServe sn (Labels c)) xs"
  by (induction xs) (auto simp: labelsServe_iff [symmetric])

lemma webJSON_summary:
  "label (summary (webJSON cid number)) ServiceLabel = ''web''"
  "isNotOneOff (summary (webJSON cid number))"
  "ID (summary (webJSON cid number)) = cid"
  "JSONID (webJSON cid number) = cid"
  by (simp_all add: summary_def webJSON_def label_def isNotOneOff_def ProjectLabel_def
      ServiceLabel_def OneoffLabel_def ContainerNumberLabel_def)

lemma crowdedWorld_scale:
  "ensureScale (containerState crowdedWorld) (projectRef crowdedWorld) (plainService ''web'') =
     Inr ([StopRemoveTask (summary (webJSON ''2222222222222222'' ''2''))],
          [summary (webJSON ''1111111111111111'' ''1'')])"
proof -
  have nm: "Name (plainService ''web'') = ''web''" by (simp add: plainService_def)
  have up: "[1 .. 1] = [1 :: int]" by (simp add: upto_rec1)
  show ?thesis
    by (simp add: ensureScale_def crowdedWorld_def getScale_plain nm isService_def webJSON_summary
        up index_at_def slice_to_def)
qed

lemma crowdedWorld_run:
  "fst (runTasks co (plainService ''web'') inherit None
          [StopRemoveTask (summary (webJSON ''2222222222222222'' ''2''))] crowdedWorld) = [None]"
  by (simp add: stopAndRemove_def crowdedWorld_def plainRuntime_def ContainerStop_def
      ContainerRemove_def logCall_def hasContainer_def updateContainer_def webJSON_summary
      setStatus_def Let_def split_beta)

lemma freshWorld_run:
  "fst (runTasks (exampleCollaborators ''h'' []) (plainService ''web'') False None
          [CreateTask ''app_web_1'' 1] freshWorld) = [None]"
  by (simp add: createContainer_def createMobyContainer_def freshWorld_def freshState_def
      listing_def plainRuntime_def emit_def exampleCollaborators_def plainService_def
      ContainerCreate_def ContainerInspect_def getLinks_def nameInUse_def hasContainer_def
      logCall_def Let_def)

lemma exampleCollaborators_labels:
  "\<forall>rt number inherit autoRemove opts.
     getCreateOptions (exampleCollaborators h nets) rt proj service number inherit autoRemove = Inr opts \<longrightarrow>
     labelsServe (Name service) (ConfigLabels opts)"
  by (auto simp: exampleCollaborators_def labelsServe_def label_def isService_def
      isNotOneOff_def ProjectLabel_def ServiceLabel_def OneoffLabel_def ContainerNumberLabel_def
      ConfigHashLabel_def)

text \<open>
  C2 (as amended). Let \<^verbatim>\<open>ensureScale\<close> schedule its tasks, let every task run to its end
  and return \<^verbatim>\<open>nil\<close>, and let \<^verbatim>\<open>ensureScale\<close> run again on the container state that
  the first run leaves in the context. When the first run scheduled no removal, and the
  containers that the service is created with carry the labels by which the filter finds
  them, the second run returns no error and schedules nothing. When the first run
  scheduled removals, the context still holds the removed containers (nothing removes a
  container from it), and the second run schedules the same removals again.
\<close>

theorem ensureScale_repeated:
  assumes first: "ensureScale (containerState w) (projectRef w) service = Inr (tasks, retained)"
    and labels: "\<forall>rt number inherit autoRemove opts.
        getCreateOptions co rt (projectRef w) service number inherit autoRemove = Inr opts \<longrightarrow>
        labelsServe (Name service) (ConfigLabels opts)"
    and finished: "list_all (\<lambda>r. r = None) (fst (runTasks co service inherit timeout tasks w))"
    and after: "w' = snd (runTasks co service inherit timeout tasks w)"
  shows "((\<forall>c. StopRemoveTask c \<notin> set tasks) \<longrightarrow>
            (\<exists>actual'. ensureScale (containerState w') (projectRef w') service = Inr ([], actual'))) \<and>
         ((\<exists>c. StopRemoveTask c \<in> set tasks) \<longrightarrow>
            tasks \<noteq> [] \<and>
            ensureScale (containerState w') (projectRef w') service = Inr (tasks, retained))"
proof -
  let ?sn = "Name service"
  from first obtain st where st: "containerState w = Some st"
    by (cases "containerState w") (auto simp: ensureScale_def)
  define actual where "actual = filter isNotOneOff (filter (isService ?sn) st)"
  have first': "ensureScale (Some st) (projectRef w) service = Inr (tasks, retained)"
    using first st by simp
  obtain outcomes where run: "runTasks co service inherit timeout tasks w = (outcomes, w')"
    using after by (cases "runTasks co service inherit timeout tasks w") simp
  with finished have fin: "list_all (\<lambda>r. r = None) outcomes" by simp
  from first' actual_def show ?thesis
  proof (cases rule: ensureScale_cases)
    case (up scale "next")
    have lab: "labelsServe ?sn (ConfigLabels opts)"
      if "getCreateOptions co rt (projectRef w) service number inh ar = Inr opts"
      for rt number inh ar opts
      using labels that by blast
    from runTasks_creations_snapshot [of co "projectRef w" service ?sn w st tasks inherit timeout
        outcomes w'] lab st run fin up(3) scheduleCreations_tasks(1)
    obtain news where p: "projectRef w' = projectRef w"
      and s: "containerState w' = Some (st @ news)"
      and l: "length news = length tasks"
      and b: "\<forall>c \<in> set news. labelsServe ?sn (Labels c)"
      by blast
    have "filter (\<lambda>c. labelsServe ?sn (Labels c)) news = news"
      using b by (intro filter_True) simp
    then have f: "filter isNotOneOff (filter (isService ?sn) (st @ news)) = actual @ news"
      by (simp only: serving_filter actual_def filter_append)
    have "length tasks = nat (sint scale - int (length actual))"
      by (simp add: up(3) scheduleCreations_tasks(2))
    then have "int (length (filter isNotOneOff (filter (isService ?sn) (st @ news)))) = sint scale"
      unfolding f using up(2) l by simp
    from ensureScale_at_scale [OF up(1) this, of "projectRef w"]
    have "ensureScale (containerState w') (projectRef w') service =
        Inr ([], filter isNotOneOff (filter (isService ?sn) (st @ news)))"
      by (simp only: s p)
    moreover have "StopRemoveTask c \<notin> set tasks" for c
      using up(3) scheduleCreations_tasks(1) [of "projectRef w" service "next"
          "sint scale - int (length actual)"] by auto
    ultimately show ?thesis by blast
  next
    case (same scale)
    then have "w' = w" using run by simp
    with first same show ?thesis by auto
  next
    case (down scale)
    let ?cs = "drop (nat (sint scale)) actual"
    from runTasks_removals_context [of co service inherit timeout ?cs w] run down(4)
    have "containerState w' = containerState w" "projectRef w' = projectRef w" by simp_all
    with first have again: "ensureScale (containerState w') (projectRef w') service = Inr (tasks, retained)"
      by simp
    have "?cs \<noteq> []" using down(2,3) by simp
    then have ne: "tasks \<noteq> []" by (simp add: down(4))
    then obtain t where "t \<in> set tasks" by (cases tasks) auto
    then obtain c where "StopRemoveTask c \<in> set tasks" using down(4) by auto
    with again ne show ?thesis by blast
  qed
qed

theorem ensureScale_repeated_witness:
  "ensureScale (containerState freshWorld) (projectRef freshWorld) (plainService ''web'') =
     Inr ([CreateTask ''app_web_1'' 1], []) \<and>
   fst (runTasks (exampleCollaborators ''h'' []) (plainService ''web'') False None
          [CreateTask ''app_web_1'' 1] freshWorld) = [None] \<and>
   (\<exists>actual'.
      ensureScale
        (containerState (snd (runTasks (exampleCollaborators ''h'' []) (plainService ''web'')
           False None [CreateTask ''app_web_1'' 1] freshWorld)))
        (projectRef (snd (runTasks (exampleCollaborators ''h'' []) (plainService ''web'')
           False None [CreateTask ''app_web_1'' 1] freshWorld)))
        (plainService ''web'') = Inr ([], actual')) \<and>
   ensureScale (containerState crowdedWorld) (projectRef crowdedWorld) (plainService ''web'') =
     Inr ([StopRemoveTask (summary (webJSON ''2222222222222222'' ''2''))],
          [summary (webJSON ''1111111111111111'' ''1'')]) \<and>
   fst (runTasks (exampleCollaborators ''h'' []) (plainService ''web'') False None
          [StopRemoveTask (summary (webJSON ''2222222222222222'' ''2''))] crowdedWorld) = [None] \<and>
   ensureScale
     (containerState (snd (runTasks (exampleCollaborators ''h'' []) (plainService ''web'') False None
          [StopRemoveTask (summary (webJSON ''2222222222222222'' ''2''))] crowdedWorld)))
     (projectRef (snd (runTasks (exampleCollaborators ''h'' []) (plainService ''web'') False None
          [StopRemoveTask (summary (webJSON ''2222222222222222'' ''2''))] crowdedWorld)))
     (plainService ''web'') =
     Inr ([StopRemoveTask (summary (webJSON ''2222222222222222'' ''2''))],
          [summary (webJSON ''1111111111111111'' ''1'')])"
proof -
  let ?co = "exampleCollaborators ''h'' []"
  let ?c2 = "summary (webJSON ''2222222222222222'' ''2'')"
  have f1: "list_all (\<lambda>r. r = None) (fst (runTasks ?co (plainService ''web'') False None
          [CreateTask ''app_web_1'' 1] freshWorld))"
    by (simp only: freshWorld_run) simp
  have f2: "list_all (\<lambda>r. r = None) (fst (runTasks ?co (plainService ''web'') False None
          [StopRemoveTask ?c2] crowdedWorld))"
    by (simp only: crowdedWorld_run) simp
  have no: "\<forall>c. StopRemoveTask c \<notin> set [CreateTask ''app_web_1'' 1]" by simp
  have yes: "\<exists>c. StopRemoveTask c \<in> set [StopRemoveTask ?c2]" by simp
  note up = ensureScale_repeated [OF freshWorld_scale exampleCollaborators_labels f1 refl,
      THEN conjunct1, THEN mp, OF no]
  note down = ensureScale_repeated [OF crowdedWorld_scale exampleCollaborators_labels f2 refl,
      THEN conjunct2, THEN mp, OF yes, THEN conjunct2]
  from freshWorld_scale freshWorld_run up crowdedWorld_scale crowdedWorld_run down
  show ?thesis by blast
qed

theorem ensureScale_stale_counterexample:
  "ensureScale (containerState crowdedWorld) (projectRef crowdedWorld) (plainService ''web'') =
     Inr ([StopRemoveTask (summary (webJSON ''2222222222222222'' ''2''))],
          [summary (webJSON ''1111111111111111'' ''1'')]) \<and>
   fst (runTasks (exampleCollaborators ''h'' []) (plainService ''web'') False None
          [StopRemoveTask (summary (webJSON ''2222222222222222'' ''2''))] crowdedWorld) = [None] \<and>
   ensureScale
     (containerState (snd (runTasks (exampleCollaborators ''h'' []) (plainService ''web'') False None
          [StopRemoveTask (summary (webJSON ''2222222222222222'' ''2''))] crowdedWorld)))
     (projectRef (snd (runTasks (exampleCollaborators ''h'' []) (plainService ''web'') False None
          [StopRemoveTask (summary (webJSON ''2222222222222222'' ''2''))] crowdedWorld)))
     (plainService ''web'') =
     Inr ([StopRemoveTask (summary (webJSON ''2222222222222222'' ''2''))],
          [summary (webJSON ''1111111111111111'' ''1'')])"
proof -
  let ?c2 = "summary (webJSON ''2222222222222222'' ''2'')"
  let ?run = "runTasks (exampleCollaborators ''h'' []) (plainService ''web'') False None
          [StopRemoveTask ?c2] crowdedWorld"
  have ctx: "containerState (snd ?run) = containerState crowdedWorld"
    "projectRef (snd ?run) = projectRef crowdedWorld"
    using runTasks_removals_context [of "exampleCollaborators ''h'' []" "plainService ''web''"
        False None "[?c2]" crowdedWorld]
    by simp_all
  show ?thesis
    unfolding ctx using crowdedWorld_scale crowdedWorld_run by blast
qed

section \<open>Properties of the cascade to the dependents\<close>


























end
